theory Spec2Isabelle
  imports Complex_Main "HOL-Library.Word" "HOL-Library.Sublist" "HOL-Library.Multiset"
begin

section \<open>JavaScript strings and arrays\<close>

text \<open>
  A JavaScript string is a sequence of UTF-16 code units. Literals of the source are
  written with \<open>str\<close>, which maps every (ASCII) character to its code unit.
\<close>

type_synonym jsstring = "16 word list"

definition str :: "string \<Rightarrow> jsstring" where
  "str s = map of_char s"

text \<open>The truthiness of a string: every string but the empty one.\<close>

definition truthy :: "'a list \<Rightarrow> bool" where
  "truthy s = (s \<noteq> [])"

text \<open>
  \<open>String.prototype.split(sep)\<close> for a separator of one code unit: the string is cut at
  every occurrence of the separator, so \<open>n\<close> occurrences give \<open>n + 1\<close> fragments, some of
  them possibly empty; the empty string gives one empty fragment.
\<close>

fun js_split :: "'a \<Rightarrow> 'a list \<Rightarrow> 'a list list" where
  "js_split sep [] = [[]]"
| "js_split sep (c # cs) =
     (if c = sep then [] # js_split sep cs
      else (c # hd (js_split sep cs)) # tl (js_split sep cs))"

text \<open>\<open>String.prototype.includes\<close>: the argument occurs as a contiguous part.\<close>

definition js_includes :: "jsstring \<Rightarrow> jsstring \<Rightarrow> bool" where
  "js_includes s part = sublist part s"

text \<open>
  \<open>String.prototype.replace\<close> with a string pattern: the first occurrence of the pattern
  is replaced (the replacements of the source hold no \<open>$\<close> pattern).
\<close>

fun js_replace :: "jsstring \<Rightarrow> jsstring \<Rightarrow> jsstring \<Rightarrow> jsstring" where
  "js_replace pat rep [] = (if pat = [] then rep else [])"
| "js_replace pat rep (c # cs) =
     (if prefix pat (c # cs) then rep @ drop (length pat) (c # cs)
      else c # js_replace pat rep cs)"

text \<open>
  \<open>String.prototype.trim\<close> removes white space and line terminators from both ends:
  TAB, LF, VT, FF, CR, SP, NBSP, the space separators U+1680, U+2000 to U+200A, U+202F,
  U+205F and U+3000, the line and paragraph separators and U+FEFF.
\<close>

definition is_white_space :: "16 word \<Rightarrow> bool" where
  "is_white_space c =
     (c \<in> {0x9, 0xA, 0xB, 0xC, 0xD, 0x20, 0xA0, 0x1680, 0x2028, 0x2029, 0x202F, 0x205F,
            0x3000, 0xFEFF}
      \<or> (0x2000 \<le> c \<and> c \<le> 0x200A))"

definition js_trim :: "jsstring \<Rightarrow> jsstring" where
  "js_trim s = rev (dropWhile is_white_space (rev (dropWhile is_white_space s)))"

text \<open>\<open>Array.prototype.join\<close> on strings.\<close>

fun js_join :: "jsstring \<Rightarrow> jsstring list \<Rightarrow> jsstring" where
  "js_join sep [] = []"
| "js_join sep [x] = x"
| "js_join sep (x # y # ys) = x @ sep @ js_join sep (y # ys)"

text \<open>An integer in a template literal: its decimal digits, with a sign when negative.\<close>

function decimal_digits :: "nat \<Rightarrow> jsstring" where
  "decimal_digits n =
     (if n < 10 then [0x30 + of_nat n]
      else decimal_digits (n div 10) @ [0x30 + of_nat (n mod 10)])"
  by pat_completeness auto
termination
  by (relation "measure (\<lambda>n. n)") auto

declare decimal_digits.simps [simp del]

definition number_to_string :: "int \<Rightarrow> jsstring" where
  "number_to_string i =
     (if i < 0 then 0x2D # decimal_digits (nat (- i)) else decimal_digits (nat i))"

text \<open>
  \<open>Array.prototype.slice(0, end)\<close> for an integer \<open>end\<close>: a negative end counts from the
  end of the array.
\<close>

definition slice_from_start :: "'a list \<Rightarrow> int \<Rightarrow> 'a list" where
  "slice_from_start xs e =
     take (if e < 0 then nat (int (length xs) + e) else nat e) xs"

text \<open>
  \<open>Array.prototype.sort\<close> with a comparison function. The sort of the language is stable;
  it is modelled by insertion from the right, where an element stops in front of the
  first element that it does not follow (\<open>cmp x y \<le> 0\<close>).
\<close>

fun insert_sorted :: "('a \<Rightarrow> 'a \<Rightarrow> int) \<Rightarrow> 'a \<Rightarrow> 'a list \<Rightarrow> 'a list" where
  "insert_sorted cmp x [] = [x]"
| "insert_sorted cmp x (y # ys) =
     (if cmp x y \<le> 0 then x # y # ys else y # insert_sorted cmp x ys)"

fun js_sort :: "('a \<Rightarrow> 'a \<Rightarrow> int) \<Rightarrow> 'a list \<Rightarrow> 'a list" where
  "js_sort cmp [] = []"
| "js_sort cmp (x # xs) = insert_sorted cmp x (js_sort cmp xs)"

text \<open>
  Objects have an identity: the store holds the objects created so far, an object is
  referred to by its place in the store, a literal \<open>{}\<close> creates a new object, and \<open>===\<close>
  on objects compares the references.
\<close>

type_synonym 'a store = "'a list"

definition alloc :: "'a \<Rightarrow> 'a store \<Rightarrow> nat \<times> 'a store" where
  "alloc obj h = (length h, h @ [obj])"

definition strict_equals_new_object ::
  "nat \<Rightarrow> (jsstring \<times> nat) list store \<Rightarrow> bool \<times> (jsstring \<times> nat) list store" where
  "strict_equals_new_object r h = (let (r', h') = alloc [] h in (r = r', h'))"

section \<open>Data\<close>

text \<open>
  The file objects of the host application, with the fields the plugin reads. The
  references to the vault and the untrusted folder properties of a phantom file
  (\<open>children\<close>, \<open>parent\<close>, \<open>isRoot\<close>) carry no data and are left out.
\<close>

record TFolder =
  folder_name :: jsstring
  folder_path :: jsstring

record FileStats =
  mtime :: int
  ctime :: int
  stat_size :: int

record TFile =
  path :: jsstring
  name :: jsstring
  extension :: jsstring
  basename :: jsstring
  parent :: TFolder
  stat :: FileStats

text \<open>
  A match result and a suggestion item, with the fields that the modules verified here
  read or write (their declarations are in \<open>matcher.ts\<close>). The type of a match result is one of
  the strings \<open>"not found"\<close>, \<open>"tag"\<close>, \<open>"header"\<close>, \<open>"link"\<close> and those for a match on the
  name; \<open>isAlias\<close> (the field \<open>alias\<close>) says that the name matched through an alias;
  \<open>meta\<close> may be undefined.
\<close>

record MatchResult =
  mtype :: jsstring
  isAlias :: bool
  meta :: "jsstring list option"

record SuggestionItem =
  item_file :: TFile
  aliases :: "jsstring list"
  tags :: "jsstring list"
  headers :: "jsstring list"
  links :: "jsstring list"
  frontMatter :: "(jsstring \<times> jsstring) list option"
  phantom :: bool
  starred :: bool
  matchResults :: "MatchResult list"
  tokens :: "jsstring list"
  order :: "int option"

record SearchBy =
  tag :: bool
  header :: bool
  link :: bool

datatype SearchTarget = TargetFile | TargetBacklink | TargetLink | TargetTwoHopLink

text \<open>
  A search command is an object: \<open>command_ref\<close> is its identity, which \<open>!==\<close> compares. A
  sort priority is a string.
\<close>

record SearchCommand =
  command_ref :: nat
  searchBy :: SearchBy
  searchTarget :: SearchTarget
  allowFuzzySearchForSearchTarget :: bool
  minFuzzyMatchScore :: real
  commandPrefix :: jsstring
  defaultInput :: jsstring
  sortPriorities :: "jsstring list"
  showFrontMatter :: bool
  targetExtensions :: "jsstring list"
  includePrefixPathPatterns :: "jsstring list"
  excludePrefixPathPatterns :: "jsstring list"

record Settings =
  searchCommands :: "SearchCommand list"
  maxNumberOfSuggestions :: int
  normalizeAccentsAndDiacritics :: bool

text \<open>The third argument of \<open>stampMatchResults\<close>.\<close>

record StampOptions =
  isNormalizeAccentsDiacritics :: bool
  searchByHeaders :: bool
  searchByLinks :: bool
  searchByTags :: bool
  fuzzyTarget :: bool
  minFuzzyScore :: real

text \<open>
  Functions that the modules verified here import from elsewhere:
  \<open>getLinkpath\<close> of the host API, \<open>basename\<close> (with its optional extension argument),
  \<open>dirname\<close> and \<open>extname\<close> of \<open>utils/path\<close>, and \<open>uniq\<close>, \<open>flatten\<close>, \<open>uniqFlatMap\<close> and
  \<open>count\<close> of \<open>utils/collection-helper\<close> (\<open>count\<close> gives the entries of the object it
  returns). They are parameters of the model.
\<close>

record Helpers =
  getLinkpath :: "jsstring \<Rightarrow> jsstring"
  path_basename :: "jsstring \<Rightarrow> jsstring option \<Rightarrow> jsstring"
  dirname :: "jsstring \<Rightarrow> jsstring"
  extname :: "jsstring \<Rightarrow> jsstring"
  uniq :: "jsstring list \<Rightarrow> jsstring list"
  flatten :: "jsstring list list \<Rightarrow> jsstring list"
  uniqFlatMap :: "MatchResult list \<Rightarrow> (MatchResult \<Rightarrow> jsstring list) \<Rightarrow> jsstring list"
  count :: "jsstring list \<Rightarrow> (jsstring \<times> nat) list"

text \<open>
  What the model asks of the missing \<open>extname\<close> where a property depends on it: it
  answers \<open>.md\<close> only for a path that ends in \<open>.md\<close>.
\<close>

definition extname_md_only :: "Helpers \<Rightarrow> bool" where
  "extname_md_only H = (\<forall>p. extname H p = str ''.md'' \<longrightarrow> suffix (str ''.md'') p)"

text \<open>
  A sample of the missing helpers, for evaluating the model on concrete inputs: the
  link path is the link text, the extension is \<open>.md\<close> exactly for the paths that end
  in \<open>.md\<close>, and directories are not taken apart.
\<close>

definition sample_helpers :: Helpers where
  "sample_helpers =
     \<lparr> getLinkpath = (\<lambda>t. t),
       path_basename = (\<lambda>p ext. p),
       dirname = (\<lambda>p. str ''.''),
       extname = (\<lambda>p. if suffix (str ''.md'') p then str ''.md'' else []),
       uniq = remdups,
       flatten = concat,
       uniqFlatMap = (\<lambda>xs f. remdups (concat (map f xs))),
       count = (\<lambda>xs. map (\<lambda>x. (x, count_list xs x)) (remdups xs)) \<rparr>"

section \<open>HeaderModal\<close>

record Loc =
  line :: int
  col :: int
  offset :: int

record Pos =
  pos_start :: Loc
  pos_end :: Loc

record HeaderItem =
  h_value :: jsstring
  level :: nat
  position :: Pos
  hit :: bool
  index :: int

record HeaderModal =
  items :: "HeaderItem list"
  hitItems :: "HeaderItem list"
  unsafeSelectedIndex :: int
  header_settings :: Settings

definition getNextSelectIndex :: "HeaderModal \<Rightarrow> int" where
  "getNextSelectIndex m =
     (if unsafeSelectedIndex m + 1 > int (length (items m)) - 1 then 0
      else unsafeSelectedIndex m + 1)"

definition getPreviousSelectIndex :: "HeaderModal \<Rightarrow> int" where
  "getPreviousSelectIndex m =
     (if unsafeSelectedIndex m - 1 < 0 then int (length (items m)) - 1
      else unsafeSelectedIndex m - 1)"

text \<open>
  \<open>HeaderModal.getSuggestions\<close>: the query is split at the space character (U+0020) and
  the empty fragments are dropped (\<open>query.split(" ").filter((x) => x)\<close>); an item is a hit
  when there is a token and every token is included in its text. \<open>smartIncludes\<close> comes
  from \<open>utils/strings\<close> and is a parameter here. The modal keeps the hits in \<open>hitItems\<close>.
\<close>

definition header_query_tokens :: "jsstring \<Rightarrow> jsstring list" where
  "header_query_tokens query = filter truthy (js_split 0x20 query)"

definition header_getSuggestions ::
  "(jsstring \<Rightarrow> jsstring \<Rightarrow> bool \<Rightarrow> bool) \<Rightarrow> HeaderModal \<Rightarrow> jsstring
     \<Rightarrow> HeaderItem list \<times> HeaderModal" where
  "header_getSuggestions smartIncludes m query =
     (let qs = header_query_tokens query;
          suggestions =
            map (\<lambda>x. x\<lparr>hit := (length qs > 0 \<and>
                   list_all (\<lambda>q. smartIncludes (h_value x) q
                                 (normalizeAccentsAndDiacritics (header_settings m))) qs)\<rparr>)
              (items m)
      in (suggestions, m\<lparr>hitItems := filter hit suggestions\<rparr>))"

text \<open>A modal with three headers, for evaluating the model on concrete inputs.\<close>

definition sample_header_item :: "int \<Rightarrow> HeaderItem" where
  "sample_header_item i =
     \<lparr> h_value = str ''Title'', level = 1,
       position = \<lparr> pos_start = \<lparr> line = i, col = 0, offset = 10 * i \<rparr>,
                    pos_end = \<lparr> line = i, col = 7, offset = 10 * i + 7 \<rparr> \<rparr>,
       hit = False, index = i \<rparr>"

definition sample_header_modal :: "int \<Rightarrow> HeaderModal" where
  "sample_header_modal i =
     \<lparr> items = [sample_header_item 0, sample_header_item 1, sample_header_item 2],
       hitItems = [], unsafeSelectedIndex = i,
       header_settings = \<lparr> searchCommands = [], maxNumberOfSuggestions = 50,
                           normalizeAccentsAndDiacritics = False \<rparr> \<rparr>"

section \<open>AppHelper: paths of notes to be created and phantom files\<close>

datatype NewFileLocation = Root | Current | Folder

text \<open>
  What \<open>AppHelper\<close> reads from the application: the vault configuration
  (\<open>newFileLocation\<close> may be undefined; \<open>newFileFolderPath\<close> is the text the template
  literal renders), the path of the active file's folder (\<open>getActiveFile()?.parent?.path\<close>,
  undefined when there is no active file), and the table of unresolved links, from the
  path of each source file to the link texts it contains and their counts.
\<close>

record AppState =
  newFileLocation :: "NewFileLocation option"
  newFileFolderPath :: jsstring
  activeFileParentPath :: "jsstring option"
  unresolvedLinks :: "(jsstring \<times> (jsstring \<times> nat) list) list"

definition getPathToBeCreated :: "Helpers \<Rightarrow> AppState \<Rightarrow> jsstring \<Rightarrow> jsstring" where
  "getPathToBeCreated H A linkText =
     (let linkPath0 = getLinkpath H linkText;
          linkPath = (if extname H linkPath0 \<noteq> str ''.md'' then linkPath0 @ str ''.md''
                      else linkPath0)
      in if js_includes linkPath (str ''/'') then linkPath
         else (case newFileLocation A of
                 Some Root \<Rightarrow> str ''/'' @ linkPath
               | Some Current \<Rightarrow>
                   (case activeFileParentPath A of Some p \<Rightarrow> p | None \<Rightarrow> [])
                     @ str ''/'' @ linkPath
               | Some Folder \<Rightarrow> newFileFolderPath A @ str ''/'' @ linkPath
               | None \<Rightarrow> str ''/'' @ linkPath))"

definition isPhantomFile :: "TFile \<Rightarrow> bool" where
  "isPhantomFile f = (ctime (stat f) = 0)"

definition createPhantomFile :: "Helpers \<Rightarrow> AppState \<Rightarrow> jsstring \<Rightarrow> TFile" where
  "createPhantomFile H A linkText =
     (let linkPath = getPathToBeCreated H A linkText
      in \<lparr> path = linkPath,
           name = path_basename H linkPath None,
           extension = str ''md'',
           basename = path_basename H linkPath (Some (str ''.md'')),
           parent = \<lparr> folder_name = path_basename H (dirname H linkPath) None,
                      folder_path = dirname H linkPath \<rparr>,
           stat = \<lparr> mtime = 0, ctime = 0, stat_size = 0 \<rparr> \<rparr>)"

text \<open>
  \<open>Object.values(unresolvedLinks).map(Object.keys)\<close> lists, for every source file, the
  link texts that resolve to no file.
\<close>

definition searchPhantomFiles :: "Helpers \<Rightarrow> AppState \<Rightarrow> TFile list" where
  "searchPhantomFiles H A =
     map (createPhantomFile H A)
       (uniq H (flatten H (map (\<lambda>links. map fst links) (map snd (unresolvedLinks A)))))"

definition sample_app :: AppState where
  "sample_app =
     \<lparr> newFileLocation = None,
       newFileFolderPath = str ''inbox'',
       activeFileParentPath = None,
       unresolvedLinks = [(str ''a.md'', [(str ''note'', 1), (str ''dir/plan.md'', 2)])] \<rparr>"

section \<open>suggestion-factory: the elements of a suggestion\<close>

text \<open>
  The elements that the factory builds, as trees: an element has a tag, its classes, its
  attributes and its children; \<open>insertAdjacentHTML("beforeend", _)\<close> adds markup,
  \<open>appendText\<close> a text. The icons come from \<open>ui/icons\<close> and are parameters.
\<close>

datatype node =
  Element jsstring "jsstring list" "(jsstring \<times> jsstring) list" "node list"
  | TextNode jsstring
  | Html jsstring

record Icons =
  ALIAS :: jsstring
  FOLDER :: jsstring
  HEADER :: jsstring
  LINK :: jsstring
  TAG :: jsstring

record Options =
  showDirectory :: bool
  showFullPathOfDirectory :: bool
  showAliasesOnTop :: bool
  hideGutterIcons :: bool

record Elements =
  itemDiv :: node
  descriptionDiv :: "node option"

definition createEl ::
  "jsstring \<Rightarrow> jsstring list \<Rightarrow> jsstring option \<Rightarrow> (jsstring \<times> jsstring) list \<Rightarrow> node" where
  "createEl t cls text attr =
     Element t cls attr (case text of None \<Rightarrow> [] | Some s \<Rightarrow> [TextNode s])"

definition createDiv :: "jsstring list \<Rightarrow> jsstring option \<Rightarrow> node" where
  "createDiv cls text = createEl (str ''div'') cls text []"

definition createSpan ::
  "jsstring list \<Rightarrow> jsstring option \<Rightarrow> (jsstring \<times> jsstring) list \<Rightarrow> node" where
  "createSpan cls text attr = createEl (str ''span'') cls text attr"

fun appendChild :: "node \<Rightarrow> node \<Rightarrow> node" where
  "appendChild (Element t cls attr children) n = Element t cls attr (children @ [n])"
| "appendChild other n = other"

definition insertAdjacentHTML :: "node \<Rightarrow> jsstring \<Rightarrow> node" where
  "insertAdjacentHTML el html = appendChild el (Html html)"

definition appendText :: "node \<Rightarrow> jsstring \<Rightarrow> node" where
  "appendText el s = appendChild el (TextNode s)"

definition createItemDiv :: "Icons \<Rightarrow> SuggestionItem \<Rightarrow> jsstring list \<Rightarrow> Options \<Rightarrow> node" where
  "createItemDiv I item aliases' options =
     (let itemDiv0 = createDiv
            [str ''another-quick-switcher__item'',
             if phantom item then str ''another-quick-switcher__phantom_item'' else [],
             if starred item then str ''another-quick-switcher__starred_item'' else [],
             if hideGutterIcons options then str ''another-quick-switcher__gutter_hidden''
             else []]
            None;
          entryDiv0 = createDiv [str ''another-quick-switcher__item__entry''] None;
          titleDiv = createDiv [str ''another-quick-switcher__item__title'']
            (Some (if showAliasesOnTop options \<and> length aliases' > 0
                   then js_join (str '' / '') aliases'
                   else basename (item_file item)));
          entryDiv1 = appendChild entryDiv0 titleDiv;
          entryDiv2 =
            (case order item of
               None \<Rightarrow> entryDiv1
             | Some k \<Rightarrow>
                 if k < 9
                 then appendChild entryDiv1
                        (createSpan [str ''another-quick-switcher__item__hot-key-guide'']
                           (Some (number_to_string (k + 1))) [])
                 else entryDiv1);
          entryDiv3 =
            (if showDirectory options
             then (let directoryDiv0 =
                         createDiv [str ''another-quick-switcher__item__directory''] None;
                       directoryDiv1 = insertAdjacentHTML directoryDiv0 (FOLDER I);
                       text = (if showFullPathOfDirectory options
                               then folder_path (parent (item_file item))
                               else folder_name (parent (item_file item)));
                       directoryDiv2 = appendText directoryDiv1 (str '' '' @ text)
                   in appendChild entryDiv2 directoryDiv2)
             else entryDiv2)
      in appendChild itemDiv0 entryDiv3)"

definition createDescriptionDiv ::
  "Icons \<Rightarrow> SuggestionItem \<Rightarrow> jsstring list \<Rightarrow> jsstring list \<Rightarrow> jsstring list
     \<Rightarrow> (jsstring \<times> nat) list \<Rightarrow> nat \<Rightarrow> Options \<Rightarrow> node" where
  "createDescriptionDiv I item aliases' tags' links' countByHeader headerResultsNum options =
     (let descriptionDiv0 = createDiv [str ''another-quick-switcher__item__descriptions''] None;
          descriptionDiv1 =
            (if length aliases' > 0
             then (let aliasDiv = createDiv [str ''another-quick-switcher__item__description''] None;
                       displayAliases = (if showAliasesOnTop options then [basename (item_file item)]
                                         else aliases')
                   in appendChild descriptionDiv0
                        (fold (\<lambda>x d. appendChild d
                                 (appendText
                                    (insertAdjacentHTML
                                       (createSpan
                                          [str ''another-quick-switcher__item__description__alias'']
                                          None [])
                                       (ALIAS I))
                                    x))
                           displayAliases aliasDiv))
             else descriptionDiv0);
          descriptionDiv2 =
            (if length tags' > 0
             then (let tagsDiv = createDiv [str ''another-quick-switcher__item__description''] None
                   in appendChild descriptionDiv1
                        (fold (\<lambda>x d. appendChild d
                                 (appendText
                                    (insertAdjacentHTML
                                       (createSpan
                                          [str ''another-quick-switcher__item__description__tag'']
                                          None [])
                                       (TAG I))
                                    (js_replace (str ''#'') [] x)))
                           tags' tagsDiv))
             else descriptionDiv1);
          descriptionDiv3 =
            (if length links' > 0
             then (let linksDiv = createDiv [str ''another-quick-switcher__item__description''] None
                   in appendChild descriptionDiv2
                        (fold (\<lambda>x d. appendChild d
                                 (appendChild
                                    (insertAdjacentHTML
                                       (createSpan
                                          [str ''another-quick-switcher__item__description__link'']
                                          None [])
                                       (LINK I))
                                    (createSpan [] (Some x)
                                       [(str ''style'', str ''padding-left: 3px'')])))
                           links' linksDiv))
             else descriptionDiv2)
      in if length countByHeader > 0
         then (let headersDiv = createDiv [str ''another-quick-switcher__item__description''] None
               in appendChild descriptionDiv3
                    (fold (\<lambda>(header', n) d. appendChild d
                             (appendChild
                                (insertAdjacentHTML
                                   (createSpan
                                      [str ''another-quick-switcher__item__description__header'',
                                       if n \<noteq> headerResultsNum
                                       then str ''another-quick-switcher__item__description__header__dimmed''
                                       else []]
                                      None [])
                                   (HEADER I))
                                (createSpan [] (Some header')
                                   [(str ''style'', str ''padding-left: 3px'')])))
                       (js_sort (\<lambda>a b. int (snd b) - int (snd a)) countByHeader)
                       headersDiv))
         else descriptionDiv3)"

text \<open>
  \<open>createElements\<close>. The object that \<open>count\<close> returns is in the store when the guard of
  the early return is evaluated; the guard creates the object of the literal \<open>{}\<close> only
  when the three lengths are 0, as \<open>&&\<close> does. \<open>meta ?? []\<close> is \<open>meta_or_empty\<close>.
\<close>

definition meta_or_empty :: "MatchResult \<Rightarrow> jsstring list" where
  "meta_or_empty x = (case meta x of None \<Rightarrow> [] | Some ms \<Rightarrow> ms)"

definition createElements ::
  "Helpers \<Rightarrow> Icons \<Rightarrow> SuggestionItem \<Rightarrow> Options \<Rightarrow> (jsstring \<times> nat) list store
     \<Rightarrow> Elements \<times> (jsstring \<times> nat) list store" where
  "createElements H I item options h =
     (let aliases' = uniqFlatMap H (filter (\<lambda>res. isAlias res) (matchResults item)) meta_or_empty;
          tags' = uniqFlatMap H (filter (\<lambda>res. mtype res = str ''tag'') (matchResults item))
                    meta_or_empty;
          links' = uniqFlatMap H (filter (\<lambda>res. mtype res = str ''link'') (matchResults item))
                     meta_or_empty;
          headerResults = filter (\<lambda>res. mtype res = str ''header'') (matchResults item);
          headerResultsNum = length headerResults;
          entries = count H (concat (map (\<lambda>xs. uniq H (meta_or_empty xs)) headerResults));
          (countByHeader, h1) = alloc entries h;
          itemDiv' = createItemDiv I item aliases' options;
          (guard, h2) =
            (if length aliases' = 0 \<and> length tags' = 0 \<and> length links' = 0
             then strict_equals_new_object countByHeader h1
             else (False, h1))
      in if guard then (\<lparr> itemDiv = itemDiv', descriptionDiv = None \<rparr>, h2)
         else (\<lparr> itemDiv = itemDiv',
                 descriptionDiv =
                   Some (createDescriptionDiv I item aliases' tags' links' entries
                           headerResultsNum options) \<rparr>, h2))"

definition sample_icons :: Icons where
  "sample_icons =
     \<lparr> ALIAS = str ''<svg>alias</svg>'', FOLDER = str ''<svg>folder</svg>'',
       HEADER = str ''<svg>header</svg>'', LINK = str ''<svg>link</svg>'',
       TAG = str ''<svg>tag</svg>'' \<rparr>"

definition sample_options :: Options where
  "sample_options =
     \<lparr> showDirectory = False, showFullPathOfDirectory = False, showAliasesOnTop = False,
       hideGutterIcons = False \<rparr>"

text \<open>Two notes for evaluating the model: \<open>Project Plan\<close> and \<open>Project Log\<close>.\<close>

definition sample_file :: "jsstring \<Rightarrow> TFile" where
  "sample_file b =
     \<lparr> path = b @ str ''.md'', name = b @ str ''.md'', extension = str ''md'', basename = b,
       parent = \<lparr> folder_name = [], folder_path = str ''/'' \<rparr>,
       stat = \<lparr> mtime = 2, ctime = 1, stat_size = 10 \<rparr> \<rparr>"

definition sample_item :: "jsstring \<Rightarrow> SuggestionItem" where
  "sample_item b =
     \<lparr> item_file = sample_file b, aliases = [], tags = [], headers = [], links = [],
       frontMatter = None, phantom = False, starred = False, matchResults = [],
       tokens = js_split 0x20 b, order = None \<rparr>"

section \<open>AnotherQuickSwitcherModal: the suggestions for a query\<close>

text \<open>
  The status element with the counts: its text is \<open>shown / total\<close>; \<open>attached\<close> says
  whether it is part of the page (\<open>remove\<close> detaches it, \<open>inputEl.before\<close> attaches it).
\<close>

record CountInput =
  shown :: int
  total :: int
  attached :: bool

text \<open>The fields of the modal that \<open>_getSuggestions\<close> reads or writes.\<close>

record Modal =
  settings :: Settings
  command :: SearchCommand
  initialCommand :: SearchCommand
  originFile :: "TFile option"
  ignoredItems :: "SuggestionItem list"
  searchQuery :: jsstring
  countInputEl :: "CountInput option"

text \<open>
  What \<open>_getSuggestions\<close> takes from outside the modules verified here: the recently opened
  files of the workspace; the candidates that \<open>indexingItems\<close> leaves in \<open>ignoredItems\<close>
  for a command and an origin file (it reads the vault, the metadata cache and the
  bookmarks of the host application); \<open>stampMatchResults\<close> of \<open>matcher.ts\<close>;
  \<open>smartWhitespaceSplit\<close> of \<open>utils/strings\<close>; and, for the functions of \<open>sorters.ts\<close>,
  the comparison of two items under one priority and the priorities that need a query.
\<close>

record Collaborators =
  getLastOpenFiles :: "jsstring list"
  indexedItems :: "SearchCommand \<Rightarrow> TFile option \<Rightarrow> SuggestionItem list"
  stampMatchResults :: "SuggestionItem \<Rightarrow> jsstring list \<Rightarrow> StampOptions \<Rightarrow> SuggestionItem"
  smartWhitespaceSplit :: "jsstring \<Rightarrow> jsstring list"
  getComparator ::
    "jsstring \<Rightarrow> SuggestionItem \<Rightarrow> SuggestionItem \<Rightarrow> (jsstring \<rightharpoonup> nat) \<Rightarrow> int"
  needsQuery :: "jsstring \<Rightarrow> bool"

text \<open>
  Modelled from the spec: \<open>sort\<close> of \<open>sorters.ts\<close>, which is not among the modules
  verified here. Section 4.4: a stable sort that compares two items by applying the priorities in
  list order; the first rule that yields a non-zero comparison decides the relative
  order; if all rules tie, the original relative order stays.
\<close>

fun compare_by_priorities ::
  "Collaborators \<Rightarrow> jsstring list \<Rightarrow> (jsstring \<rightharpoonup> nat) \<Rightarrow> SuggestionItem \<Rightarrow> SuggestionItem
     \<Rightarrow> int" where
  "compare_by_priorities E [] lastOpen a b = 0"
| "compare_by_priorities E (p # ps) lastOpen a b =
     (let r = getComparator E p a b lastOpen
      in if r \<noteq> 0 then r else compare_by_priorities E ps lastOpen a b)"

definition sort_items ::
  "Collaborators \<Rightarrow> SuggestionItem list \<Rightarrow> jsstring list \<Rightarrow> (jsstring \<rightharpoonup> nat)
     \<Rightarrow> SuggestionItem list" where
  "sort_items E xs priorities lastOpen = js_sort (compare_by_priorities E priorities lastOpen) xs"

text \<open>
  Modelled from the spec: \<open>filterNoQueryPriorities\<close> of \<open>sorters.ts\<close>, which is not
  among the modules verified here. Section 4.4: when the query is empty, the rules that only make
  sense for match quality are skipped; the substitution is a function of the configured
  priority list alone.
\<close>

definition filterNoQueryPriorities :: "Collaborators \<Rightarrow> jsstring list \<Rightarrow> jsstring list" where
  "filterNoQueryPriorities E priorities = filter (\<lambda>p. \<not> needsQuery E p) priorities"

text \<open>
  The parts of \<open>_getSuggestions\<close>, in the order of the source. The index of every
  recently opened file (a later occurrence of a path overwrites an earlier one):
\<close>

definition lastOpenFileIndexByPath :: "Collaborators \<Rightarrow> (jsstring \<rightharpoonup> nat)" where
  "lastOpenFileIndexByPath E =
     fold (\<lambda>(i, v) m. m(v \<mapsto> i)) (enumerate 0 (getLastOpenFiles E)) Map.empty"

text \<open>The first search command with a non-empty prefix that the query starts with.\<close>

definition commandByPrefix :: "Modal \<Rightarrow> jsstring \<Rightarrow> SearchCommand option" where
  "commandByPrefix m query =
     find (\<lambda>x. prefix (commandPrefix x) query)
       (filter (\<lambda>x. truthy (commandPrefix x)) (searchCommands (settings m)))"

text \<open>
  The change of command: when a command is selected by prefix, or the current command is
  not the initial one, and the selected command is not the current one, the modal takes
  the selected command (the initial one when none is selected) and indexes the items
  again.
\<close>

definition switchCommand :: "Collaborators \<Rightarrow> Modal \<Rightarrow> jsstring \<Rightarrow> Modal" where
  "switchCommand E m query =
     (let selected = commandByPrefix m query
      in if (selected \<noteq> None \<or> command_ref (initialCommand m) \<noteq> command_ref (command m))
            \<and> map_option command_ref selected \<noteq> Some (command_ref (command m))
         then (let c = (case selected of Some c \<Rightarrow> c | None \<Rightarrow> initialCommand m)
               in m\<lparr>command := c, ignoredItems := indexedItems E c (originFile m)\<rparr>)
         else m)"

text \<open>The query without the prefix of the command, behind the default input.\<close>

definition buildSearchQuery :: "Modal \<Rightarrow> jsstring \<Rightarrow> jsstring" where
  "buildSearchQuery m query =
     (let q = (if prefix (commandPrefix (command m)) query
               then js_replace (commandPrefix (command m)) [] query
               else query)
      in if truthy (defaultInput (command m)) then defaultInput (command m) @ q else q)"

text \<open>
  \<open>renderInputComponent\<close> removes the status elements from the page and builds the
  others again; of these only the count element matters here.
\<close>

definition renderInputComponent :: "Modal \<Rightarrow> Modal" where
  "renderInputComponent m =
     m\<lparr>countInputEl := map_option (\<lambda>c. c\<lparr>attached := False\<rparr>) (countInputEl m)\<rparr>"

text \<open>The state in which the search runs: everything up to the split of the query.\<close>

definition prepareSearch :: "Collaborators \<Rightarrow> jsstring \<Rightarrow> Modal \<Rightarrow> Modal" where
  "prepareSearch E query m =
     (let m1 = switchCommand E m query
      in renderInputComponent (m1\<lparr>searchQuery := buildSearchQuery m1 query\<rparr>))"

text \<open>The guard of the early return: a backlink search without the path of an origin file.\<close>

definition backlinkWithoutOrigin :: "Modal \<Rightarrow> bool" where
  "backlinkWithoutOrigin m =
     (searchTarget (command m) = TargetBacklink
      \<and> \<not> (case originFile m of None \<Rightarrow> False | Some f \<Rightarrow> truthy (path f)))"

definition isQueryEmpty :: "Modal \<Rightarrow> bool" where
  "isQueryEmpty m = (\<not> truthy (js_trim (searchQuery m)))"

definition stampOptions :: "Modal \<Rightarrow> StampOptions" where
  "stampOptions m =
     \<lparr> isNormalizeAccentsDiacritics = normalizeAccentsAndDiacritics (settings m),
       searchByHeaders = header (searchBy (command m)),
       searchByLinks = link (searchBy (command m)),
       searchByTags = tag (searchBy (command m)),
       fuzzyTarget = allowFuzzySearchForSearchTarget (command m),
       minFuzzyScore = minFuzzyMatchScore (command m) \<rparr>"

definition noneNotFound :: "SuggestionItem \<Rightarrow> bool" where
  "noneNotFound x = list_all (\<lambda>r. mtype r \<noteq> str ''not found'') (matchResults x)"

definition matchedSuggestions :: "Collaborators \<Rightarrow> Modal \<Rightarrow> SuggestionItem list" where
  "matchedSuggestions E m =
     (let qs = smartWhitespaceSplit E (searchQuery m)
      in if isQueryEmpty m then ignoredItems m
         else filter noneNotFound
                (map (\<lambda>x. stampMatchResults E x qs (stampOptions m)) (ignoredItems m)))"

definition sortedSuggestions :: "Collaborators \<Rightarrow> Modal \<Rightarrow> SuggestionItem list" where
  "sortedSuggestions E m =
     sort_items E (matchedSuggestions E m)
       (if isQueryEmpty m then filterNoQueryPriorities E (sortPriorities (command m))
        else sortPriorities (command m))
       (lastOpenFileIndexByPath E)"

text \<open>\<open>.map((x, order) => ({ ...x, order }))\<close>: every item gets its place in the array.\<close>

definition with_order :: "SuggestionItem list \<Rightarrow> SuggestionItem list" where
  "with_order xs = map (\<lambda>(i, x). x\<lparr>order := Some (int i)\<rparr>) (enumerate 0 xs)"

text \<open>
  \<open>_getSuggestions\<close>: the suggestions and the modal after the call. (A name cannot begin
  with an underscore here.)
\<close>

definition private_getSuggestions ::
  "Collaborators \<Rightarrow> jsstring \<Rightarrow> Modal \<Rightarrow> SuggestionItem list \<times> Modal" where
  "private_getSuggestions E query m0 =
     (let m = prepareSearch E query m0
      in if backlinkWithoutOrigin m then ([], m)
         else (let items' = sortedSuggestions E m;
                   limit = maxNumberOfSuggestions (settings m);
                   m' = m\<lparr>countInputEl :=
                            Some \<lparr> shown = min (int (length items')) limit,
                                   total = int (length items'), attached = True \<rparr>\<rparr>
               in (with_order (slice_from_start items' limit), m')))"

text \<open>
  A sample of the collaborators, for evaluating the model on concrete inputs: a token
  matches an item when the name of its file includes the token; the query is split at
  spaces; starred items come first under the priority \<open>Star\<close>, every other priority
  ties; the priority \<open>Name match\<close> needs a query.
\<close>

definition sample_stamp :: "SuggestionItem \<Rightarrow> jsstring list \<Rightarrow> StampOptions \<Rightarrow> SuggestionItem" where
  "sample_stamp x qs opts =
     x\<lparr>matchResults :=
         map (\<lambda>q. if js_includes (basename (item_file x)) q
                  then \<lparr> mtype = str ''name'', isAlias = False, meta = None \<rparr>
                  else \<lparr> mtype = str ''not found'', isAlias = False, meta = None \<rparr>) qs\<rparr>"

definition sample_collaborators :: Collaborators where
  "sample_collaborators =
     \<lparr> getLastOpenFiles = [],
       indexedItems = (\<lambda>c f. []),
       stampMatchResults = sample_stamp,
       smartWhitespaceSplit = header_query_tokens,
       getComparator = (\<lambda>p a b lastOpen.
          if p = str ''Star''
          then (if starred a = starred b then 0 else if starred a then - 1 else 1)
          else 0),
       needsQuery = (\<lambda>p. p = str ''Name match'') \<rparr>"

definition sample_command :: "SearchTarget \<Rightarrow> SearchCommand" where
  "sample_command target =
     \<lparr> command_ref = 0,
       searchBy = \<lparr> tag = False, header = False, link = False \<rparr>,
       searchTarget = target,
       allowFuzzySearchForSearchTarget = False,
       minFuzzyMatchScore = 0.5,
       commandPrefix = [],
       defaultInput = [],
       sortPriorities = [str ''Name match'', str ''Star''],
       showFrontMatter = False,
       targetExtensions = [],
       includePrefixPathPatterns = [],
       excludePrefixPathPatterns = [] \<rparr>"

definition sample_modal :: "SearchTarget \<Rightarrow> int \<Rightarrow> Modal" where
  "sample_modal target limit =
     \<lparr> settings = \<lparr> searchCommands = [sample_command target],
                    maxNumberOfSuggestions = limit,
                    normalizeAccentsAndDiacritics = False \<rparr>,
       command = sample_command target,
       initialCommand = sample_command target,
       originFile = None,
       ignoredItems = [sample_item (str ''Project Plan''), sample_item (str ''Project Log'')],
       searchQuery = [],
       countInputEl = None \<rparr>"

section \<open>Indexing: the candidates of a search command\<close>

text \<open>
  \<open>_getSuggestions\<close> indexes the items again when the command changes. An exception is
  a value of the model: \<open>TypeError\<close>, the error that the language raises when a property
  of \<open>undefined\<close> is read or \<open>undefined\<close> is iterated. A computation that may raise
  returns \<open>Inl\<close> of the error or \<open>Inr\<close> of its result.
\<close>

datatype js_error = TypeError

text \<open>\<open>Array.prototype.map\<close> with a function that may raise: the first error ends it.\<close>

fun map_raising :: "('a \<Rightarrow> js_error + 'b) \<Rightarrow> 'a list \<Rightarrow> js_error + 'b list" where
  "map_raising f [] = Inr []"
| "map_raising f (x # xs) =
     (case f x of
        Inl e \<Rightarrow> Inl e
      | Inr y \<Rightarrow> (case map_raising f xs of Inl e \<Rightarrow> Inl e | Inr ys \<Rightarrow> Inr (y # ys)))"

text \<open>
  What the metadata cache of the host application holds for a file, as far as indexing
  reads it: the front matter, the tags (the \<open>tag\<close> of every entry), the headings (the
  \<open>heading\<close> of every entry), the links and the embeds; each may be undefined. Of a link
  or embed the link text (\<open>link\<close>), the displayed text (which may be undefined) and the
  offset of its start (\<open>position.start.offset\<close>) are read.
\<close>

record LinkCache =
  linkText :: jsstring
  displayText :: "jsstring option"
  startOffset :: int

record CachedMetadata =
  cache_frontmatter :: "(jsstring \<times> jsstring) list option"
  cache_tags :: "jsstring list option"
  cache_headings :: "jsstring list option"
  cache_links :: "LinkCache list option"
  cache_embeds :: "LinkCache list option"

datatype BookmarkItem = BookmarkFile jsstring | BookmarkGroup "BookmarkItem list"

text \<open>
  A table of links, as the metadata cache keeps them: from the path of each source file
  to the link targets it contains and their counts.
\<close>

type_synonym LinkTable = "(jsstring \<times> (jsstring \<times> nat) list) list"

text \<open>
  The state of the host application that indexing reads, beside what \<open>AppState\<close> holds:
  the table of resolved links, the path of the active file (undefined when there is none;
  \<open>activeFileParentPath\<close> of \<open>AppState\<close> is the path of its folder),
  \<open>metadataCache.getFirstLinkpathDest\<close>, the files of the vault, the cache of a file
  (which may be null) and the bookmarks.
\<close>

record Vault =
  app_state :: AppState
  resolvedLinks :: LinkTable
  activeFilePath :: "jsstring option"
  getFirstLinkpathDest :: "jsstring \<Rightarrow> jsstring \<Rightarrow> TFile option"
  getFiles :: "TFile list"
  getFileCache :: "TFile \<Rightarrow> CachedMetadata option"
  getBookmarks :: "BookmarkItem list"

text \<open>
  Functions that indexing imports from elsewhere and that are parameters of the model:
  \<open>parseFrontMatterAliases\<close> and \<open>parseFrontMatterTags\<close> of the host API (their result may
  be null); \<open>keyBy\<close> (called with the identity as the key), \<open>omitBy\<close>, \<open>includeItems\<close> and
  \<open>excludeItems\<close> (called with the path of the file of an item as the key), \<open>mapKeys\<close>,
  \<open>groupBy\<close> and \<open>mapValues\<close> (at the two types at which it is called) of
  \<open>utils/collection-helper\<close>; \<open>excludeFormat\<close> of \<open>utils/strings\<close>; \<open>merge\<close> of the
  package \<open>ts-deepmerge\<close>; for \<open>sorter\<close> of \<open>utils/collection-helper\<close>, the comparison
  that the comparator it builds makes of the keys of two items; and the replacement of
  every \<open><current_dir>\<close> in a pattern, \<open>p.replace(/<current_dir>/g, dir)\<close>, which the
  language provides.
\<close>

record IndexHelpers =
  keyBy :: "jsstring list \<Rightarrow> (jsstring \<rightharpoonup> jsstring)"
  parseFrontMatterAliases :: "(jsstring \<times> jsstring) list option \<Rightarrow> jsstring list option"
  parseFrontMatterTags :: "(jsstring \<times> jsstring) list option \<Rightarrow> jsstring list option"
  excludeFormat :: "jsstring \<Rightarrow> jsstring"
  omitBy ::
    "(jsstring \<times> jsstring) list \<Rightarrow> (jsstring \<Rightarrow> jsstring \<Rightarrow> bool) \<Rightarrow> (jsstring \<times> jsstring) list"
  sorter :: "int \<Rightarrow> int \<Rightarrow> int"
  includeItems :: "SuggestionItem list \<Rightarrow> jsstring list \<Rightarrow> SuggestionItem list"
  excludeItems :: "SuggestionItem list \<Rightarrow> jsstring list \<Rightarrow> SuggestionItem list"
  replaceCurrentDir :: "jsstring \<Rightarrow> jsstring \<Rightarrow> jsstring"
  mapValues ::
    "LinkTable \<Rightarrow> ((jsstring \<times> nat) list \<Rightarrow> (jsstring \<times> nat) list) \<Rightarrow> LinkTable"
  mapKeys :: "(jsstring \<times> nat) list \<Rightarrow> (jsstring \<Rightarrow> jsstring) \<Rightarrow> (jsstring \<times> nat) list"
  merge_tables :: "LinkTable \<Rightarrow> LinkTable \<Rightarrow> LinkTable"
  groupBy :: "LinkCache list \<Rightarrow> (LinkCache \<Rightarrow> jsstring) \<Rightarrow> (jsstring \<times> LinkCache list) list"
  mapValues_groups ::
    "(jsstring \<times> LinkCache list) list \<Rightarrow> (LinkCache list \<Rightarrow> LinkCache option)
       \<Rightarrow> (jsstring \<times> LinkCache option) list"

text \<open>
  \<open>AppHelper.getStarredFilePaths\<close>: the paths of the bookmarks of type \<open>file\<close>.
  \<open>AppHelper.getCurrentDirPath\<close>: the path of the folder of the active file, or the empty
  string. \<open>AppHelper.linkText2Path\<close>: null without an active file; otherwise the path of the
  file that the host resolves the link text to from the active file, or null.
\<close>

definition getStarredFilePaths :: "Vault \<Rightarrow> jsstring list" where
  "getStarredFilePaths V =
     List.map_filter (\<lambda>x. case x of BookmarkFile p \<Rightarrow> Some p | BookmarkGroup g \<Rightarrow> None)
       (getBookmarks V)"

definition getCurrentDirPath :: "Vault \<Rightarrow> jsstring" where
  "getCurrentDirPath V = (case activeFileParentPath (app_state V) of Some p \<Rightarrow> p | None \<Rightarrow> [])"

definition linkText2Path :: "Vault \<Rightarrow> jsstring \<Rightarrow> jsstring option" where
  "linkText2Path V t =
     (case activeFilePath V of
        None \<Rightarrow> None
      | Some p \<Rightarrow> map_option path (getFirstLinkpathDest V t p))"

text \<open>
  \<open>AppHelper.createBacklinksMap\<close>: for every link target, the set of the files that link
  to it, from the resolved links merged with the unresolved ones, whose targets are
  replaced by the paths to be created. A set is a list without repetition here, and the
  object that is returned is a map from its keys.
\<close>

definition createBacklinksMap ::
  "Helpers \<Rightarrow> IndexHelpers \<Rightarrow> Vault \<Rightarrow> (jsstring \<rightharpoonup> jsstring list)" where
  "createBacklinksMap H I V =
     (let unresolved =
            mapValues I (unresolvedLinks (app_state V))
              (\<lambda>innerMap. mapKeys I innerMap (getPathToBeCreated H (app_state V)))
      in fold (\<lambda>(filePath, linkMap) backLinksMap.
                 fold (\<lambda>linkPath b.
                         b(linkPath \<mapsto>
                             (case b linkPath of
                                None \<Rightarrow> [filePath]
                              | Some s \<Rightarrow> if filePath \<in> set s then s else s @ [filePath])))
                   (map fst linkMap) backLinksMap)
           (merge_tables I (resolvedLinks V) unresolved) Map.empty)"

text \<open>
  \<open>AppHelper.createLinksMap\<close>: the embeds and links of a file, grouped by the path they
  lead to (the path that \<open>linkText2Path\<close> gives, or else the path to be created); of every
  group the first is kept. An entry whose value is undefined reads like a missing entry.
\<close>

definition createLinksMap ::
  "Helpers \<Rightarrow> IndexHelpers \<Rightarrow> Vault \<Rightarrow> TFile \<Rightarrow> (jsstring \<rightharpoonup> LinkCache)" where
  "createLinksMap H I V f =
     (let cache = getFileCache V f;
          embeds = (case cache of
                      None \<Rightarrow> []
                    | Some c \<Rightarrow> (case cache_embeds c of Some es \<Rightarrow> es | None \<Rightarrow> []));
          links = (case cache of
                     None \<Rightarrow> []
                   | Some c \<Rightarrow> (case cache_links c of Some ls \<Rightarrow> ls | None \<Rightarrow> []));
          grouped =
            mapValues_groups I
              (groupBy I (embeds @ links)
                 (\<lambda>x. case linkText2Path V (linkText x) of
                         Some p \<Rightarrow> p
                       | None \<Rightarrow> getPathToBeCreated H (app_state V) (linkText x)))
              (\<lambda>caches. case caches of [] \<Rightarrow> None | c # cs \<Rightarrow> Some c)
      in (\<lambda>p. case map_of grouped p of Some (Some l) \<Rightarrow> Some l | Some None \<Rightarrow> None | None \<Rightarrow> None))"

text \<open>
  The item of a phantom file, as the constructor of the modal builds it, and the phantom
  items of the modal (none when only existing files are shown).
\<close>

definition phantomItem :: "TFile \<Rightarrow> SuggestionItem" where
  "phantomItem x =
     \<lparr> item_file = x, aliases = [], tags = [], headers = [], links = [], frontMatter = None,
       phantom = True, starred = False, matchResults = [],
       tokens = js_split 0x20 (basename x), order = None \<rparr>"

definition phantomItems :: "Helpers \<Rightarrow> AppState \<Rightarrow> bool \<Rightarrow> SuggestionItem list" where
  "phantomItems H A showExistingFilesOnly =
     (if showExistingFilesOnly then [] else map phantomItem (searchPhantomFiles H A))"

text \<open>The item that \<open>indexingItems\<close> builds for a file of the vault from its cache.\<close>

definition fileItem ::
  "Helpers \<Rightarrow> IndexHelpers \<Rightarrow> SearchCommand \<Rightarrow> (jsstring \<rightharpoonup> jsstring) \<Rightarrow> TFile
     \<Rightarrow> CachedMetadata \<Rightarrow> SuggestionItem" where
  "fileItem H I c starredPathMap x cache =
     \<lparr> item_file = x,
       aliases = (case parseFrontMatterAliases I (cache_frontmatter cache) of
                    Some a \<Rightarrow> a | None \<Rightarrow> []),
       tags = (if tag (searchBy c)
               then uniq H ((case cache_tags cache of Some ts \<Rightarrow> ts | None \<Rightarrow> [])
                            @ (case parseFrontMatterTags I (cache_frontmatter cache) of
                                 Some ts \<Rightarrow> ts | None \<Rightarrow> []))
               else []),
       headers = (if header (searchBy c)
                  then map (excludeFormat I)
                         (case cache_headings cache of Some hs \<Rightarrow> hs | None \<Rightarrow> [])
                  else []),
       links = (if link (searchBy c)
                then uniq H (case cache_links cache of
                               Some ls \<Rightarrow> map (\<lambda>l. case displayText l of Some t \<Rightarrow> t | None \<Rightarrow> []) ls
                             | None \<Rightarrow> [])
                else []),
       frontMatter = (if showFrontMatter c
                      then (case cache_frontmatter cache of
                              Some fm \<Rightarrow> Some (omitBy I fm (\<lambda>key v. key = str ''position''))
                            | None \<Rightarrow> None)
                      else None),
       phantom = False,
       starred = (starredPathMap (path x) \<noteq> None),
       matchResults = [],
       tokens = js_split 0x20 (basename x),
       order = None \<rparr>"

text \<open>
  \<open>xs.sort(sorter(key))\<close>. The key of an item may raise; the keys are read before the
  items are sorted.
\<close>

definition sortByKey ::
  "IndexHelpers \<Rightarrow> (SuggestionItem \<Rightarrow> js_error + int) \<Rightarrow> SuggestionItem list
     \<Rightarrow> js_error + SuggestionItem list" where
  "sortByKey I key xs =
     (case map_raising (\<lambda>x. case key x of Inl e \<Rightarrow> Inl e | Inr k \<Rightarrow> Inr (x, k)) xs of
        Inl e \<Rightarrow> Inl e
      | Inr ps \<Rightarrow> Inr (map fst (js_sort (\<lambda>a b. sorter I (snd a) (snd b)) ps)))"

text \<open>
  The \<open>switch\<close> of \<open>prefilterItems\<close> on the target of the search. For a backlink search the
  entry of the origin file is read with \<open>?.\<close>, and a missing entry keeps no item. For a
  link search the offset is read of the items that passed the filter. For a two-hop
  search \<open>Array.from(backlinksMap2[x])\<close> is evaluated for the path \<open>x\<close> of every item that
  the origin file links to: it raises a \<open>TypeError\<close> when the backlinks have no entry for
  \<open>x\<close>.
\<close>

definition filterByTarget ::
  "Helpers \<Rightarrow> IndexHelpers \<Rightarrow> Vault \<Rightarrow> SearchCommand \<Rightarrow> TFile option \<Rightarrow> SuggestionItem list
     \<Rightarrow> js_error + SuggestionItem list" where
  "filterByTarget H I V c origin xs =
     (case searchTarget c of
        TargetFile \<Rightarrow> Inr xs
      | TargetBacklink \<Rightarrow>
          (let backlinksMap = createBacklinksMap H I V
           in Inr (filter (\<lambda>x. case backlinksMap (case origin of Some f \<Rightarrow> path f | None \<Rightarrow> []) of
                                 Some s \<Rightarrow> path (item_file x) \<in> set s
                               | None \<Rightarrow> False) xs))
      | TargetLink \<Rightarrow>
          (let originFileLinkMap =
                 (case origin of Some f \<Rightarrow> createLinksMap H I V f | None \<Rightarrow> Map.empty)
           in sortByKey I
                (\<lambda>x. case originFileLinkMap (path (item_file x)) of
                        Some l \<Rightarrow> Inr (startOffset l)
                      | None \<Rightarrow> Inl TypeError)
                (filter (\<lambda>x. originFileLinkMap (path (item_file x)) \<noteq> None) xs))
      | TargetTwoHopLink \<Rightarrow>
          (let backlinksMap2 = createBacklinksMap H I V;
               originFileLinkMap2 =
                 (case origin of Some f \<Rightarrow> createLinksMap H I V f | None \<Rightarrow> Map.empty);
               linkPaths = map (\<lambda>x. path (item_file x))
                             (filter (\<lambda>x. originFileLinkMap2 (path (item_file x)) \<noteq> None) xs)
           in case map_raising
                     (\<lambda>x. case backlinksMap2 x of Some s \<Rightarrow> Inr s | None \<Rightarrow> Inl TypeError)
                     linkPaths of
                Inl e \<Rightarrow> Inl e
              | Inr backlinkPaths \<Rightarrow>
                  (let filteredPaths = uniq H (linkPaths @ concat backlinkPaths)
                   in sortByKey I
                        (\<lambda>x. Inr (case originFileLinkMap2 (path (item_file x)) of
                                     Some l \<Rightarrow> startOffset l
                                   | None \<Rightarrow> 65535))
                        (filter (\<lambda>x. path (item_file x) \<in> set filteredPaths) xs))))"

text \<open>
  \<open>prefilterItems\<close>: the items with a target extension (when the command names any), then
  those of the target of the search, then those that the patterns include and do not
  exclude.
\<close>

definition prefilterItems ::
  "Helpers \<Rightarrow> IndexHelpers \<Rightarrow> Vault \<Rightarrow> SearchCommand \<Rightarrow> TFile option \<Rightarrow> SuggestionItem list
     \<Rightarrow> js_error + SuggestionItem list" where
  "prefilterItems H I V c origin originItems =
     (let includePatterns = map (\<lambda>p. replaceCurrentDir I p (getCurrentDirPath V))
                              (includePrefixPathPatterns c);
          excludePatterns = map (\<lambda>p. replaceCurrentDir I p (getCurrentDirPath V))
                              (excludePrefixPathPatterns c);
          xs0 = (if targetExtensions c \<noteq> []
                 then filter (\<lambda>x. extension (item_file x) \<in> set (targetExtensions c)) originItems
                 else originItems)
      in case filterByTarget H I V c origin xs0 of
           Inl e \<Rightarrow> Inl e
         | Inr xs1 \<Rightarrow>
             (let xs2 = (if includePatterns \<noteq> [] then includeItems I xs1 includePatterns else xs1)
              in Inr (if excludePatterns \<noteq> [] then excludeItems I xs2 excludePatterns
                      else xs2)))"

text \<open>
  \<open>indexingItems\<close>: an item for every file of the vault that is not the origin file and
  has a cache, then the phantom items of the modal; the result of \<open>prefilterItems\<close>
  becomes \<open>ignoredItems\<close>. (\<open>originItems\<close> is read nowhere else.)
\<close>

definition indexingItems ::
  "Helpers \<Rightarrow> IndexHelpers \<Rightarrow> Vault \<Rightarrow> SuggestionItem list \<Rightarrow> SearchCommand \<Rightarrow> TFile option
     \<Rightarrow> js_error + SuggestionItem list" where
  "indexingItems H I V phantoms c origin =
     (let starredPathMap = keyBy I (getStarredFilePaths V);
          fileItems =
            List.map_filter
              (\<lambda>x. if (case origin of Some f \<Rightarrow> path x \<noteq> path f | None \<Rightarrow> True)
                    then map_option (fileItem H I c starredPathMap x) (getFileCache V x)
                    else None)
              (getFiles V)
      in prefilterItems H I V c origin (fileItems @ phantoms))"

text \<open>
  \<open>_getSuggestions\<close> with the exceptions of indexing: it is \<open>private_getSuggestions\<close> with
  \<open>indexingItems\<close> in the place of the candidates that are given there. Nothing catches
  an exception of indexing: it ends \<open>_getSuggestions\<close>. (The modal has taken the new
  command by then; the model does not follow it after the exception.)
\<close>

definition switchCommand_raising ::
  "Helpers \<Rightarrow> IndexHelpers \<Rightarrow> Vault \<Rightarrow> SuggestionItem list \<Rightarrow> Modal \<Rightarrow> jsstring
     \<Rightarrow> js_error + Modal" where
  "switchCommand_raising H I V phantoms m query =
     (let selected = commandByPrefix m query
      in if (selected \<noteq> None \<or> command_ref (initialCommand m) \<noteq> command_ref (command m))
            \<and> map_option command_ref selected \<noteq> Some (command_ref (command m))
         then (let c = (case selected of Some c \<Rightarrow> c | None \<Rightarrow> initialCommand m)
               in case indexingItems H I V phantoms c (originFile m) of
                    Inl e \<Rightarrow> Inl e
                  | Inr xs \<Rightarrow> Inr (m\<lparr>command := c, ignoredItems := xs\<rparr>))
         else Inr m)"

definition prepareSearch_raising ::
  "Helpers \<Rightarrow> IndexHelpers \<Rightarrow> Vault \<Rightarrow> SuggestionItem list \<Rightarrow> jsstring \<Rightarrow> Modal
     \<Rightarrow> js_error + Modal" where
  "prepareSearch_raising H I V phantoms query m =
     (case switchCommand_raising H I V phantoms m query of
        Inl e \<Rightarrow> Inl e
      | Inr m1 \<Rightarrow> Inr (renderInputComponent (m1\<lparr>searchQuery := buildSearchQuery m1 query\<rparr>)))"

definition getSuggestions_raising ::
  "Collaborators \<Rightarrow> Helpers \<Rightarrow> IndexHelpers \<Rightarrow> Vault \<Rightarrow> SuggestionItem list \<Rightarrow> jsstring \<Rightarrow> Modal
     \<Rightarrow> js_error + (SuggestionItem list \<times> Modal)" where
  "getSuggestions_raising E H I V phantoms query m0 =
     (case prepareSearch_raising H I V phantoms query m0 of
        Inl e \<Rightarrow> Inl e
      | Inr m \<Rightarrow>
          if backlinkWithoutOrigin m then Inr ([], m)
          else (let items' = sortedSuggestions E m;
                    limit = maxNumberOfSuggestions (settings m);
                    m' = m\<lparr>countInputEl :=
                             Some \<lparr> shown = min (int (length items')) limit,
                                    total = int (length items'), attached = True \<rparr>\<rparr>
                in Inr (with_order (slice_from_start items' limit), m')))"

text \<open>
  A sample of the helpers of indexing, for evaluating the model on concrete inputs: no
  aliases and tags in the front matter, headings kept as they are, an ascending order of
  the keys, patterns that are prefixes of the path, tables merged by keeping the entries
  of both.
\<close>

definition sample_index_helpers :: IndexHelpers where
  "sample_index_helpers =
     \<lparr> keyBy = (\<lambda>xs. map_of (map (\<lambda>x. (x, x)) xs)),
       parseFrontMatterAliases = (\<lambda>fm. None),
       parseFrontMatterTags = (\<lambda>fm. None),
       excludeFormat = (\<lambda>s. s),
       omitBy = (\<lambda>fm p. filter (\<lambda>(k, v). \<not> p k v) fm),
       sorter = (\<lambda>a b. if a < b then - 1 else if b < a then 1 else 0),
       includeItems = (\<lambda>xs ps. filter (\<lambda>x. list_ex (\<lambda>p. prefix p (path (item_file x))) ps) xs),
       excludeItems = (\<lambda>xs ps. filter (\<lambda>x. \<not> list_ex (\<lambda>p. prefix p (path (item_file x))) ps) xs),
       replaceCurrentDir = (\<lambda>p dir. p),
       mapValues = (\<lambda>t f. map (\<lambda>(k, v). (k, f v)) t),
       mapKeys = (\<lambda>t f. map (\<lambda>(k, v). (f k, v)) t),
       merge_tables = (\<lambda>a b. a @ b),
       groupBy = (\<lambda>xs key. map (\<lambda>k. (k, filter (\<lambda>x. key x = k) xs)) (remdups (map key xs))),
       mapValues_groups = (\<lambda>t f. map (\<lambda>(k, v). (k, f v)) t) \<rparr>"

text \<open>
  A vault for evaluating a two-hop search: the notes \<open>o/O.md\<close>, \<open>o/X.md\<close>, \<open>a/A.md\<close> and
  \<open>a/X.md\<close>, each with a cache. \<open>o/O.md\<close> contains a link with the text \<open>X\<close>, which
  leads to \<open>o/X.md\<close> from there (so the table of resolved links says) and to \<open>a/X.md\<close>
  from the active file \<open>a/A.md\<close>; no note links to \<open>a/X.md\<close>.
\<close>

definition two_hop_cache :: "TFile \<Rightarrow> CachedMetadata option" where
  "two_hop_cache f =
     Some \<lparr> cache_frontmatter = None, cache_tags = None, cache_headings = None,
            cache_links = (if path f = str ''o/O.md''
                           then Some [\<lparr> linkText = str ''X'', displayText = None, startOffset = 0 \<rparr>]
                           else None),
            cache_embeds = None \<rparr>"

definition two_hop_vault :: Vault where
  "two_hop_vault =
     \<lparr> app_state = \<lparr> newFileLocation = None, newFileFolderPath = [],
                     activeFileParentPath = Some (str ''a''), unresolvedLinks = [] \<rparr>,
       resolvedLinks = [(str ''o/O.md'', [(str ''o/X.md'', 1)])],
       activeFilePath = Some (str ''a/A.md''),
       getFirstLinkpathDest = (\<lambda>t p. if t = str ''X'' \<and> p = str ''a/A.md''
                                     then Some (sample_file (str ''a/X'')) else None),
       getFiles = [sample_file (str ''o/O''), sample_file (str ''o/X''), sample_file (str ''a/A''),
                   sample_file (str ''a/X'')],
       getFileCache = two_hop_cache,
       getBookmarks = [] \<rparr>"

text \<open>
  Two modals whose origin file is \<open>o/O.md\<close>. The first was opened with a two-hop search
  and has changed to a search of files since; the empty query takes it back to its
  initial command. The second was opened with a link search; a two-hop search is among
  the commands of the settings, with the prefix \<open>:t\<close> and a space.
\<close>

definition two_hop_command :: SearchCommand where
  "two_hop_command =
     (sample_command TargetTwoHopLink)\<lparr>command_ref := 1, commandPrefix := str '':t ''\<rparr>"

definition two_hop_initial_modal :: Modal where
  "two_hop_initial_modal =
     (sample_modal TargetFile 50)
       \<lparr>initialCommand := two_hop_command, originFile := Some (sample_file (str ''o/O''))\<rparr>"

definition two_hop_prefix_modal :: Modal where
  "two_hop_prefix_modal =
     (sample_modal TargetLink 50)
       \<lparr>settings := (settings (sample_modal TargetLink 50))
                      \<lparr>searchCommands := [sample_command TargetLink, two_hop_command]\<rparr>,
        originFile := Some (sample_file (str ''o/O''))\<rparr>"

section \<open>Cyclic selection in HeaderModal\<close>

text \<open>
  Claim C9. When the header list is not empty and the selected index lies between 0 and
  the last index, both \<open>getNextSelectIndex\<close> and \<open>getPreviousSelectIndex\<close> return an index
  in the same range; the successor of the last index is 0 and the predecessor of index 0
  is the last index, and everywhere else they move by one.
\<close>

theorem select_index_cyclic:
  assumes "items m \<noteq> []"
    and "0 \<le> unsafeSelectedIndex m"
    and "unsafeSelectedIndex m \<le> int (length (items m)) - 1"
  shows "0 \<le> getNextSelectIndex m \<and> getNextSelectIndex m \<le> int (length (items m)) - 1
    \<and> 0 \<le> getPreviousSelectIndex m \<and> getPreviousSelectIndex m \<le> int (length (items m)) - 1
    \<and> (unsafeSelectedIndex m = int (length (items m)) - 1 \<longrightarrow> getNextSelectIndex m = 0)
    \<and> (unsafeSelectedIndex m = 0 \<longrightarrow> getPreviousSelectIndex m = int (length (items m)) - 1)
    \<and> (unsafeSelectedIndex m < int (length (items m)) - 1
          \<longrightarrow> getNextSelectIndex m = unsafeSelectedIndex m + 1)
    \<and> (0 < unsafeSelectedIndex m \<longrightarrow> getPreviousSelectIndex m = unsafeSelectedIndex m - 1)"
  using assms by (auto simp: getNextSelectIndex_def getPreviousSelectIndex_def)

theorem select_index_cyclic_witness:
  "items (sample_header_modal 2) \<noteq> []
   \<and> 0 \<le> unsafeSelectedIndex (sample_header_modal 2)
   \<and> unsafeSelectedIndex (sample_header_modal 2) \<le> int (length (items (sample_header_modal 2))) - 1
   \<and> getNextSelectIndex (sample_header_modal 2) = 0
   \<and> getPreviousSelectIndex (sample_header_modal 2) = 1"
proof -
  have h1: "items (sample_header_modal 2) \<noteq> []"
    by (simp add: sample_header_modal_def)
  have h2: "0 \<le> unsafeSelectedIndex (sample_header_modal 2)"
    by (simp add: sample_header_modal_def)
  have h3: "unsafeSelectedIndex (sample_header_modal 2)
      \<le> int (length (items (sample_header_modal 2))) - 1"
    by (simp add: sample_header_modal_def)
  show ?thesis
    using h1 h2 h3 select_index_cyclic [OF h1 h2 h3]
    by (simp add: sample_header_modal_def)
qed

section \<open>Tokens of a header query\<close>

lemma js_split_not_Nil: "js_split sep xs \<noteq> []"
  by (induction xs) auto

lemma concat_split: "concat (js_split sep xs) = filter (\<lambda>c. c \<noteq> sep) xs"
proof (induction xs)
  case Nil
  show ?case by simp
next
  case (Cons c cs)
  have "hd (js_split sep cs) @ concat (tl (js_split sep cs)) = concat (js_split sep cs)"
    using js_split_not_Nil [of sep cs] by (cases "js_split sep cs") auto
  with Cons show ?case by simp
qed

lemma split_no_sep: "t \<in> set (js_split sep xs) \<Longrightarrow> sep \<notin> set t"
proof (induction xs arbitrary: t)
  case Nil
  then show ?case by simp
next
  case (Cons c cs)
  obtain w ws where w: "js_split sep cs = w # ws"
    using js_split_not_Nil [of sep cs] by (cases "js_split sep cs") auto
  show ?case using Cons.prems Cons.IH w by (auto split: if_splits)
qed

lemma split_append_sep:
  "sep \<notin> set w \<Longrightarrow> js_split sep (w @ sep # rest) = w # js_split sep rest"
  by (induction w) auto

lemma split_no_occurrence: "sep \<notin> set w \<Longrightarrow> js_split sep w = [w]"
  by (induction w) auto

lemma concat_filter_truthy: "concat (filter truthy xss) = concat xss"
  by (induction xss) (auto simp: truthy_def)

text \<open>
  Claim C6, as stated, fails for the tokenization of \<open>HeaderModal.getSuggestions\<close>: the full-width space U+3000 between \<open>a\<close> and \<open>b\<close> does not
  separate them, the query is one token.
\<close>

theorem header_tokens_fullwidth_counterexample:
  "header_query_tokens [0x61, 0x3000, 0x62] = [[0x61, 0x3000, 0x62]]
   \<and> header_query_tokens [0x61, 0x3000, 0x62] \<noteq> [[0x61], [0x62]]"
  by (simp add: header_query_tokens_def truthy_def)

text \<open>
  Claim C6, amended. The tokenization of \<open>HeaderModal.getSuggestions\<close> splits the query on
  runs of the space character U+0020 only (any other white space, the full-width space
  included, stays inside a token), discards the empty fragments and keeps the order of
  the rest: no token is empty or contains a space, the tokens put together are the query
  without its spaces, leading spaces are skipped, a space-free word in front of a space
  is the first token, and a space-free word alone is the only token. The empty string
  gives the empty token list.
\<close>

theorem header_tokens_split_on_spaces:
  "header_query_tokens [] = []
   \<and> (\<forall>t \<in> set (header_query_tokens q). t \<noteq> [] \<and> 0x20 \<notin> set t)
   \<and> concat (header_query_tokens q) = filter (\<lambda>c. c \<noteq> 0x20) q
   \<and> header_query_tokens (0x20 # q) = header_query_tokens q
   \<and> (w \<noteq> [] \<and> 0x20 \<notin> set w
        \<longrightarrow> header_query_tokens (w @ 0x20 # q) = w # header_query_tokens q)
   \<and> (w \<noteq> [] \<and> 0x20 \<notin> set w \<longrightarrow> header_query_tokens w = [w])"
proof -
  have "header_query_tokens [] = []"
    by (simp add: header_query_tokens_def truthy_def)
  moreover have "\<forall>t \<in> set (header_query_tokens q). t \<noteq> [] \<and> 0x20 \<notin> set t"
    by (auto simp: header_query_tokens_def truthy_def dest: split_no_sep)
  moreover have "concat (header_query_tokens q) = filter (\<lambda>c. c \<noteq> 0x20) q"
    by (simp add: header_query_tokens_def concat_filter_truthy concat_split)
  moreover have "header_query_tokens (0x20 # q) = header_query_tokens q"
    by (simp add: header_query_tokens_def truthy_def)
  moreover have "w \<noteq> [] \<and> 0x20 \<notin> set w
      \<longrightarrow> header_query_tokens (w @ 0x20 # q) = w # header_query_tokens q"
    by (simp add: header_query_tokens_def truthy_def split_append_sep)
  moreover have "w \<noteq> [] \<and> 0x20 \<notin> set w \<longrightarrow> header_query_tokens w = [w]"
    by (simp add: header_query_tokens_def truthy_def split_no_occurrence)
  ultimately show ?thesis by blast
qed

theorem header_tokens_split_on_spaces_witness:
  "str ''ab'' \<noteq> [] \<and> 0x20 \<notin> set (str ''ab'')
   \<and> header_query_tokens (str ''ab'' @ 0x20 # str ''  c d '') = [str ''ab'', str ''c'', str ''d'']
   \<and> header_query_tokens (str ''ab'') = [str ''ab'']
   \<and> concat (header_query_tokens (str ''  c d '')) = str ''cd''"
proof -
  have h: "str ''ab'' \<noteq> [] \<and> 0x20 \<notin> set (str ''ab'')"
    by (simp add: str_def)
  have rest: "header_query_tokens (str ''  c d '') = [str ''c'', str ''d'']"
    by (simp add: header_query_tokens_def truthy_def str_def)
  show ?thesis
    using h rest header_tokens_split_on_spaces [of "str ''  c d ''" "str ''ab''"]
    by (simp add: str_def)
qed

section \<open>Phantom files\<close>

lemma getPathToBeCreated_suffix:
  "suffix (if extname H (getLinkpath H t) \<noteq> str ''.md'' then getLinkpath H t @ str ''.md''
           else getLinkpath H t)
     (getPathToBeCreated H A t)"
  unfolding getPathToBeCreated_def Let_def
  by (auto simp: suffix_def split: option.splits NewFileLocation.splits)

text \<open>
  Claim C10. Every file that \<open>searchPhantomFiles\<close> produces has creation time 0, so
  \<open>isPhantomFile\<close> holds for it, and has the extension \<open>md\<close>. Its path is the path to be
  created of some link text, and that path ends in the link path with \<open>.md\<close> appended
  whenever \<open>extname\<close> of the link path is not \<open>.md\<close>, and in the link path itself
  otherwise. So the path ends in \<open>.md\<close>, given that \<open>extname\<close> (a helper of
  \<open>utils/path\<close>, a parameter here) answers \<open>.md\<close> only for paths that end in \<open>.md\<close>
  (\<open>extname_md_only\<close>).
\<close>

theorem phantom_files_roundtrip:
  assumes "f \<in> set (searchPhantomFiles H A)"
  shows "ctime (stat f) = 0 \<and> isPhantomFile f \<and> extension f = str ''md''
    \<and> (\<exists>t. path f = getPathToBeCreated H A t
          \<and> (if extname H (getLinkpath H t) \<noteq> str ''.md''
              then suffix (getLinkpath H t @ str ''.md'') (path f)
              else suffix (getLinkpath H t) (path f)))
    \<and> (extname_md_only H \<longrightarrow> suffix (str ''.md'') (path f))"
proof -
  from assms obtain t where f: "f = createPhantomFile H A t"
    by (auto simp: searchPhantomFiles_def)
  have p: "path f = getPathToBeCreated H A t"
    by (simp add: f createPhantomFile_def Let_def)
  have basic: "ctime (stat f) = 0 \<and> isPhantomFile f \<and> extension f = str ''md''"
    by (simp add: f createPhantomFile_def isPhantomFile_def Let_def)
  have suf: "if extname H (getLinkpath H t) \<noteq> str ''.md''
      then suffix (getLinkpath H t @ str ''.md'') (path f)
      else suffix (getLinkpath H t) (path f)"
    using getPathToBeCreated_suffix [of H t A] by (simp add: p split: if_splits)
  have md: "suffix (str ''.md'') (path f)"
    if ext: "extname_md_only H"
  proof (cases "extname H (getLinkpath H t) \<noteq> str ''.md''")
    case True
    with suf have "suffix (getLinkpath H t @ str ''.md'') (path f)" by simp
    moreover have "suffix (str ''.md'') (getLinkpath H t @ str ''.md'')"
      by (simp add: suffix_def)
    ultimately show ?thesis by (rule suffix_order.trans [rotated])
  next
    case False
    with suf have "suffix (getLinkpath H t) (path f)" by simp
    moreover from False ext have "suffix (str ''.md'') (getLinkpath H t)"
      by (simp add: extname_md_only_def)
    ultimately show ?thesis by (rule suffix_order.trans [rotated])
  qed
  from basic p suf md show ?thesis by blast
qed

theorem phantom_files_roundtrip_witness:
  "createPhantomFile sample_helpers sample_app (str ''note'')
      \<in> set (searchPhantomFiles sample_helpers sample_app)
   \<and> extname_md_only sample_helpers
   \<and> isPhantomFile (createPhantomFile sample_helpers sample_app (str ''note''))
   \<and> extension (createPhantomFile sample_helpers sample_app (str ''note'')) = str ''md''
   \<and> path (createPhantomFile sample_helpers sample_app (str ''note'')) = str ''/note.md''
   \<and> suffix (str ''.md'') (path (createPhantomFile sample_helpers sample_app (str ''note'')))"
proof -
  have mem: "createPhantomFile sample_helpers sample_app (str ''note'')
      \<in> set (searchPhantomFiles sample_helpers sample_app)"
    by (simp add: searchPhantomFiles_def sample_helpers_def sample_app_def str_def)
  have ext: "extname_md_only sample_helpers"
    by (simp add: extname_md_only_def sample_helpers_def str_def)
  have p: "path (createPhantomFile sample_helpers sample_app (str ''note'')) = str ''/note.md''"
    by (simp add: createPhantomFile_def getPathToBeCreated_def sample_helpers_def
        sample_app_def js_includes_def str_def suffix_def sublist_Cons_right Let_def)
  show ?thesis
    using mem ext p phantom_files_roundtrip [OF mem] by blast
qed

section \<open>Auxiliary facts: sorting, slicing and the parts of the search\<close>

lemma mset_insert_sorted: "mset (insert_sorted cmp x ys) = add_mset x (mset ys)"
  by (induction ys) auto

lemma mset_js_sort: "mset (js_sort cmp xs) = mset xs"
  by (induction xs) (auto simp: mset_insert_sorted)

lemma length_js_sort: "length (js_sort cmp xs) = length xs"
  using mset_js_sort [of cmp xs] by (metis size_mset)

lemma set_js_sort: "set (js_sort cmp xs) = set xs"
  using mset_js_sort [of cmp xs] by (metis set_mset_mset)

lemma mset_sort_items: "mset (sort_items E xs ps lo) = mset xs"
  by (simp add: sort_items_def mset_js_sort)

lemma length_sort_items: "length (sort_items E xs ps lo) = length xs"
  by (simp add: sort_items_def length_js_sort)

lemma set_sort_items: "set (sort_items E xs ps lo) = set xs"
  by (simp add: sort_items_def set_js_sort)

lemma length_slice_from_start:
  "0 \<le> e \<Longrightarrow> length (slice_from_start xs e) = min (length xs) (nat e)"
  by (simp add: slice_from_start_def)

lemma length_slice_le: "length (slice_from_start xs e) \<le> length xs"
  by (simp add: slice_from_start_def)

lemma nth_slice_from_start:
  "i < length (slice_from_start xs e) \<Longrightarrow> slice_from_start xs e ! i = xs ! i"
  by (simp add: slice_from_start_def)

lemma set_slice_subset: "set (slice_from_start xs e) \<subseteq> set xs"
  by (auto simp: slice_from_start_def dest: in_set_takeD)

lemma slice_all: "int (length xs) \<le> e \<Longrightarrow> slice_from_start xs e = xs"
  by (simp add: slice_from_start_def)

lemma length_with_order: "length (with_order xs) = length xs"
  by (simp add: with_order_def)

lemma nth_with_order:
  "i < length xs \<Longrightarrow> with_order xs ! i = (xs ! i)\<lparr>order := Some (int i)\<rparr>"
  by (simp add: with_order_def nth_enumerate_eq)

lemma in_with_order:
  "y \<in> set (with_order xs) \<longleftrightarrow> (\<exists>i < length xs. y = (xs ! i)\<lparr>order := Some (int i)\<rparr>)"
  by (metis (no_types, lifting) in_set_conv_nth length_with_order nth_with_order)

lemma prepareSearch_fields:
  "settings (prepareSearch E q m) = settings m"
  "initialCommand (prepareSearch E q m) = initialCommand m"
  "originFile (prepareSearch E q m) = originFile m"
  by (simp_all add: prepareSearch_def renderInputComponent_def switchCommand_def Let_def)

lemma getSuggestions_result:
  "fst (private_getSuggestions E q m) =
     (if backlinkWithoutOrigin (prepareSearch E q m) then []
      else with_order (slice_from_start (sortedSuggestions E (prepareSearch E q m))
                         (maxNumberOfSuggestions (settings m))))"
  by (simp add: private_getSuggestions_def Let_def prepareSearch_fields)

lemma getSuggestions_state:
  "snd (private_getSuggestions E q m) =
     (if backlinkWithoutOrigin (prepareSearch E q m) then prepareSearch E q m
      else (prepareSearch E q m)\<lparr>countInputEl :=
             Some \<lparr> shown = min (int (length (sortedSuggestions E (prepareSearch E q m))))
                              (maxNumberOfSuggestions (settings m)),
                    total = int (length (sortedSuggestions E (prepareSearch E q m))),
                    attached = True \<rparr>\<rparr>)"
  by (simp add: private_getSuggestions_def Let_def prepareSearch_fields)

lemma matched_nonempty_query:
  "\<not> isQueryEmpty m \<Longrightarrow>
   matchedSuggestions E m =
     filter noneNotFound
       (map (\<lambda>x. stampMatchResults E x (smartWhitespaceSplit E (searchQuery m)) (stampOptions m))
          (ignoredItems m))"
  by (simp add: matchedSuggestions_def Let_def)

lemma matched_empty_query: "isQueryEmpty m \<Longrightarrow> matchedSuggestions E m = ignoredItems m"
  by (simp add: matchedSuggestions_def Let_def)

lemma mset_sortedSuggestions: "mset (sortedSuggestions E m) = mset (matchedSuggestions E m)"
  by (simp add: sortedSuggestions_def mset_sort_items)

lemma length_sortedSuggestions: "length (sortedSuggestions E m) = length (matchedSuggestions E m)"
  by (simp add: sortedSuggestions_def length_sort_items)

lemma set_sortedSuggestions: "set (sortedSuggestions E m) = set (matchedSuggestions E m)"
  by (simp add: sortedSuggestions_def set_sort_items)

lemma length_matched_le: "length (matchedSuggestions E m) \<le> length (ignoredItems m)"
  by (simp add: matchedSuggestions_def Let_def)

lemma noneNotFound_order [simp]: "noneNotFound (x\<lparr>order := k\<rparr>) = noneNotFound x"
  by (simp add: noneNotFound_def)


lemma compare_by_priorities_cong:
  "getComparator E' = getComparator E \<Longrightarrow>
   compare_by_priorities E' ps lo a b = compare_by_priorities E ps lo a b"
  by (induction ps) (simp_all add: Let_def)

lemma sort_items_cong:
  "getComparator E' = getComparator E \<Longrightarrow> sort_items E' xs ps lo = sort_items E xs ps lo"
proof -
  assume g: "getComparator E' = getComparator E"
  have "compare_by_priorities E' ps lo = compare_by_priorities E ps lo"
    by (intro ext) (rule compare_by_priorities_cong [OF g])
  then show ?thesis by (simp add: sort_items_def)
qed

lemma switchCommand_cong:
  assumes "indexedItems E' = indexedItems E"
  shows "switchCommand E' m q = switchCommand E m q"
  by (simp only: switchCommand_def assms)

lemma prepareSearch_cong:
  assumes "indexedItems E' = indexedItems E"
  shows "prepareSearch E' q m = prepareSearch E q m"
  by (simp only: prepareSearch_def switchCommand_cong [OF assms])


lemma switchCommand_fields:
  "settings (switchCommand E m q) = settings m"
  "initialCommand (switchCommand E m q) = initialCommand m"
  "originFile (switchCommand E m q) = originFile m"
  "searchQuery (switchCommand E m q) = searchQuery m"
  "countInputEl (switchCommand E m q) = countInputEl m"
  by (simp_all add: switchCommand_def Let_def)



lemma prepareSearch_parts:
  "command (prepareSearch E q m) = command (switchCommand E m q)"
  "ignoredItems (prepareSearch E q m) = ignoredItems (switchCommand E m q)"
  "searchQuery (prepareSearch E q m) = buildSearchQuery (switchCommand E m q) q"
  "countInputEl (prepareSearch E q m) = map_option (\<lambda>c. c\<lparr>attached := False\<rparr>) (countInputEl m)"
  by (simp_all add: prepareSearch_def renderInputComponent_def switchCommand_fields Let_def)








lemma js_sort_all_tie:
  "(\<forall>a \<in> set xs. \<forall>b \<in> set xs. cmp a b \<le> 0) \<Longrightarrow> js_sort cmp xs = xs"
proof (induction xs)
  case Nil
  then show ?case by simp
next
  case (Cons x xs)
  then have "js_sort cmp xs = xs" by simp
  then show ?case using Cons.prems by (cases xs) auto
qed

section \<open>The sample search, evaluated\<close>

lemma sample_prepare:
  "prepareSearch sample_collaborators q (sample_modal t l) = (sample_modal t l)\<lparr>searchQuery := q\<rparr>"
  by (cases q)
     (simp_all add: prepareSearch_def switchCommand_def commandByPrefix_def sample_modal_def
        sample_command_def truthy_def Let_def buildSearchQuery_def renderInputComponent_def)

lemma sample_guard:
  "backlinkWithoutOrigin ((sample_modal t l)\<lparr>searchQuery := q\<rparr>) = (t = TargetBacklink)"
  by (simp add: backlinkWithoutOrigin_def sample_modal_def sample_command_def)

lemma sample_limit: "maxNumberOfSuggestions (settings (sample_modal t l)) = l"
  by (simp add: sample_modal_def)

lemma sample_candidates:
  "ignoredItems ((sample_modal t l)\<lparr>searchQuery := q\<rparr>)
     = [sample_item (str ''Project Plan''), sample_item (str ''Project Log'')]"
  by (simp add: sample_modal_def)

lemma sample_not_blank: "\<not> isQueryEmpty ((sample_modal t l)\<lparr>searchQuery := str ''Proj''\<rparr>)"
  by (simp add: isQueryEmpty_def js_trim_def is_white_space_def str_def truthy_def)

lemma sample_blank: "isQueryEmpty ((sample_modal t l)\<lparr>searchQuery := str ''  ''\<rparr>)"
  by (simp add: isQueryEmpty_def js_trim_def is_white_space_def str_def truthy_def)

lemma sample_tokens: "smartWhitespaceSplit sample_collaborators (str ''Proj'') = [str ''Proj'']"
  by (simp add: sample_collaborators_def header_query_tokens_def truthy_def str_def)

lemma sample_includes:
  "js_includes (str ''Project Plan'') (str ''Proj'')"
  "js_includes (str ''Project Log'') (str ''Proj'')"
  by (simp_all add: js_includes_def str_def sublist_Cons_right)

lemma sample_basename: "basename (item_file (sample_item b)) = b"
  by (simp add: sample_item_def sample_file_def)

lemma sample_stamp_found:
  "js_includes b t \<Longrightarrow> noneNotFound (sample_stamp (sample_item b) [t] opts)"
  by (simp add: sample_stamp_def noneNotFound_def sample_basename str_def)

lemma sample_stamp_is: "stampMatchResults sample_collaborators = sample_stamp"
  by (simp add: sample_collaborators_def)

lemma sample_query: "searchQuery ((sample_modal t l)\<lparr>searchQuery := q\<rparr>) = q"
  by simp

lemma sample_matched:
  "matchedSuggestions sample_collaborators ((sample_modal t l)\<lparr>searchQuery := str ''Proj''\<rparr>)
     = [sample_stamp (sample_item (str ''Project Plan'')) [str ''Proj'']
          (stampOptions ((sample_modal t l)\<lparr>searchQuery := str ''Proj''\<rparr>)),
        sample_stamp (sample_item (str ''Project Log'')) [str ''Proj'']
          (stampOptions ((sample_modal t l)\<lparr>searchQuery := str ''Proj''\<rparr>))]"
  by (simp only: matched_nonempty_query [OF sample_not_blank] sample_candidates sample_stamp_is
        sample_query sample_tokens list.map filter.simps sample_stamp_found [OF sample_includes(1)]
        sample_stamp_found [OF sample_includes(2)] if_True)

lemma sample_starred: "starred (sample_stamp (sample_item b) ts opts) = False"
  by (simp add: sample_stamp_def sample_item_def)

lemma sample_tie:
  "starred a = starred b \<Longrightarrow> compare_by_priorities sample_collaborators ps lo a b = 0"
  by (induction ps) (simp_all add: sample_collaborators_def Let_def)

lemma sample_sorted:
  "sortedSuggestions sample_collaborators ((sample_modal t l)\<lparr>searchQuery := str ''Proj''\<rparr>)
     = matchedSuggestions sample_collaborators ((sample_modal t l)\<lparr>searchQuery := str ''Proj''\<rparr>)"
  unfolding sortedSuggestions_def sort_items_def
  by (rule js_sort_all_tie) (simp add: sample_matched sample_tie sample_starred)

lemma sample_result_1:
  "fst (private_getSuggestions sample_collaborators (str ''Proj'') (sample_modal TargetFile 1))
     = [(sample_stamp (sample_item (str ''Project Plan'')) [str ''Proj'']
          (stampOptions ((sample_modal TargetFile 1)\<lparr>searchQuery := str ''Proj''\<rparr>)))\<lparr>order := Some 0\<rparr>]"
  by (simp add: getSuggestions_result sample_prepare sample_guard sample_limit sample_sorted
      sample_matched slice_from_start_def with_order_def)

lemma sample_stamp_basename:
  "basename (item_file (sample_stamp x ts opts)) = basename (item_file x)"
  by (simp add: sample_stamp_def)

section \<open>Eligible items\<close>

text \<open>
  Claim C1, as stated, fails: with the result cap 1 and the query \<open>Proj\<close>, the note
  \<open>Project Log\<close> is a candidate, its only token finds a match, and yet the output is the
  single item \<open>Project Plan\<close>.
\<close>

theorem truncation_drops_eligible_counterexample:
  "\<not> isQueryEmpty (prepareSearch sample_collaborators (str ''Proj'') (sample_modal TargetFile 1))
   \<and> \<not> backlinkWithoutOrigin
         (prepareSearch sample_collaborators (str ''Proj'') (sample_modal TargetFile 1))
   \<and> sample_item (str ''Project Log'')
       \<in> set (ignoredItems
                (prepareSearch sample_collaborators (str ''Proj'') (sample_modal TargetFile 1)))
   \<and> noneNotFound
        (stampMatchResults sample_collaborators (sample_item (str ''Project Log''))
           (smartWhitespaceSplit sample_collaborators
              (searchQuery
                 (prepareSearch sample_collaborators (str ''Proj'') (sample_modal TargetFile 1))))
           (stampOptions
              (prepareSearch sample_collaborators (str ''Proj'') (sample_modal TargetFile 1))))
   \<and> basename (item_file
        (stampMatchResults sample_collaborators (sample_item (str ''Project Log''))
           (smartWhitespaceSplit sample_collaborators
              (searchQuery
                 (prepareSearch sample_collaborators (str ''Proj'') (sample_modal TargetFile 1))))
           (stampOptions
              (prepareSearch sample_collaborators (str ''Proj'') (sample_modal TargetFile 1)))))
       = str ''Project Log''
   \<and> length (fst (private_getSuggestions sample_collaborators (str ''Proj'')
                    (sample_modal TargetFile 1))) = 1
   \<and> basename (item_file (hd (fst (private_getSuggestions sample_collaborators (str ''Proj'')
                                    (sample_modal TargetFile 1)))))
       = str ''Project Plan''"
  by (simp add: sample_prepare sample_not_blank sample_guard sample_candidates sample_stamp_is
      sample_tokens sample_stamp_found sample_includes sample_stamp_basename sample_basename
      sample_result_1)


text \<open>
  Claim C1, amended. For a query that is not blank, and unless the search is a backlink
  search without an origin file, an item is eligible (it is in \<open>matchedSuggestions\<close>) if
  and only if it is a candidate stamped with the match results of the query and none of
  its match results has the type \<open>not found\<close>. Sorting only permutes the eligible items,
  and the output is the first \<open>maxNumberOfSuggestions\<close> of them in sorted order, each with
  its place as \<open>order\<close>: every item of the output is an eligible item, and every eligible
  item is in the output when there are no more eligible items than
  \<open>maxNumberOfSuggestions\<close>.
\<close>

theorem eligible_iff_every_token_found:
  assumes m': "m' = prepareSearch E q m"
    and nonempty: "\<not> isQueryEmpty m'"
    and guard: "\<not> backlinkWithoutOrigin m'"
    and r: "r = fst (private_getSuggestions E q m)"
  shows "(\<forall>x. x \<in> set (matchedSuggestions E m') \<longleftrightarrow>
            ((\<exists>c \<in> set (ignoredItems m').
                 x = stampMatchResults E c (smartWhitespaceSplit E (searchQuery m')) (stampOptions m'))
             \<and> (\<forall>res \<in> set (matchResults x). mtype res \<noteq> str ''not found'')))
     \<and> mset (sortedSuggestions E m') = mset (matchedSuggestions E m')
     \<and> r = with_order (slice_from_start (sortedSuggestions E m') (maxNumberOfSuggestions (settings m)))
     \<and> (\<forall>y \<in> set r. \<exists>x \<in> set (matchedSuggestions E m'). \<exists>i. y = x\<lparr>order := Some i\<rparr>)
     \<and> (int (length (matchedSuggestions E m')) \<le> maxNumberOfSuggestions (settings m) \<longrightarrow>
          (\<forall>x \<in> set (matchedSuggestions E m'). \<exists>i. x\<lparr>order := Some i\<rparr> \<in> set r))"
proof -
  let ?sorted = "sortedSuggestions E m'"
  let ?limit = "maxNumberOfSuggestions (settings m)"
  have a: "\<forall>x. x \<in> set (matchedSuggestions E m') \<longleftrightarrow>
            ((\<exists>c \<in> set (ignoredItems m').
                 x = stampMatchResults E c (smartWhitespaceSplit E (searchQuery m')) (stampOptions m'))
             \<and> (\<forall>res \<in> set (matchResults x). mtype res \<noteq> str ''not found''))"
    using nonempty by (auto simp: matched_nonempty_query noneNotFound_def list_all_iff)
  have b: "r = with_order (slice_from_start ?sorted ?limit)"
    using guard by (simp add: r getSuggestions_result m')
  have c: "\<forall>y \<in> set r. \<exists>x \<in> set (matchedSuggestions E m'). \<exists>i. y = x\<lparr>order := Some i\<rparr>"
  proof
    fix y assume "y \<in> set r"
    then obtain i where i: "i < length (slice_from_start ?sorted ?limit)"
      and y: "y = (slice_from_start ?sorted ?limit ! i)\<lparr>order := Some (int i)\<rparr>"
      unfolding b in_with_order by blast
    have "slice_from_start ?sorted ?limit ! i \<in> set ?sorted"
      using i set_slice_subset [of ?sorted ?limit] nth_mem by blast
    then show "\<exists>x \<in> set (matchedSuggestions E m'). \<exists>i. y = x\<lparr>order := Some i\<rparr>"
      using y by (auto simp: set_sortedSuggestions)
  qed
  have d: "\<forall>x \<in> set (matchedSuggestions E m'). \<exists>i. x\<lparr>order := Some i\<rparr> \<in> set r"
    if le: "int (length (matchedSuggestions E m')) \<le> ?limit"
  proof
    fix x assume "x \<in> set (matchedSuggestions E m')"
    then have "x \<in> set ?sorted" by (simp add: set_sortedSuggestions)
    then obtain i where i: "i < length ?sorted" and x: "?sorted ! i = x"
      by (auto simp: in_set_conv_nth)
    have "slice_from_start ?sorted ?limit = ?sorted"
      using le by (simp add: slice_all length_sortedSuggestions)
    then have "x\<lparr>order := Some (int i)\<rparr> \<in> set r"
      unfolding b in_with_order using i x by auto
    then show "\<exists>i. x\<lparr>order := Some i\<rparr> \<in> set r" by blast
  qed
  from a b c d mset_sortedSuggestions [of E m'] show ?thesis by blast
qed

theorem eligible_iff_every_token_found_witness:
  "\<not> isQueryEmpty (prepareSearch sample_collaborators (str ''Proj'') (sample_modal TargetFile 50))
   \<and> \<not> backlinkWithoutOrigin
         (prepareSearch sample_collaborators (str ''Proj'') (sample_modal TargetFile 50))
   \<and> mset (sortedSuggestions sample_collaborators
             (prepareSearch sample_collaborators (str ''Proj'') (sample_modal TargetFile 50)))
       = mset (matchedSuggestions sample_collaborators
                 (prepareSearch sample_collaborators (str ''Proj'') (sample_modal TargetFile 50)))
   \<and> fst (private_getSuggestions sample_collaborators (str ''Proj'') (sample_modal TargetFile 50))
       = with_order (slice_from_start
           (sortedSuggestions sample_collaborators
              (prepareSearch sample_collaborators (str ''Proj'') (sample_modal TargetFile 50)))
           (maxNumberOfSuggestions (settings (sample_modal TargetFile 50))))
   \<and> length (fst (private_getSuggestions sample_collaborators (str ''Proj'')
                    (sample_modal TargetFile 50))) = 2"
proof -
  let ?m = "prepareSearch sample_collaborators (str ''Proj'') (sample_modal TargetFile 50)"
  have ne: "\<not> isQueryEmpty ?m"
    by (simp add: sample_prepare sample_not_blank)
  have guard: "\<not> backlinkWithoutOrigin ?m"
    by (simp add: sample_prepare sample_guard)
  note t = eligible_iff_every_token_found [OF refl ne guard refl]
  have len: "length (fst (private_getSuggestions sample_collaborators (str ''Proj'')
      (sample_modal TargetFile 50))) = 2"
    by (simp add: getSuggestions_result sample_prepare sample_guard sample_limit sample_sorted
        sample_matched slice_from_start_def with_order_def)
  from ne guard t [THEN conjunct2, THEN conjunct1]
    t [THEN conjunct2, THEN conjunct2, THEN conjunct1] len
  show ?thesis by (simp only: simp_thms)
qed

section \<open>The empty query\<close>

text \<open>
  Claim C2. When the search query is blank after trimming, the match-and-filter step is
  skipped: the eligible items are the pre-filtered candidates themselves, all of them
  reach the sorter, and the sorter gets the configured priorities reduced by
  \<open>filterNoQueryPriorities\<close>, which depends on the configured list alone and keeps a
  subsequence of it. The output is computed from that sorted list, and no match is
  evaluated: the output is the same whatever \<open>stampMatchResults\<close> and
  \<open>smartWhitespaceSplit\<close> are.
\<close>

theorem empty_query_skips_matching:
  assumes m': "m' = prepareSearch E q m"
    and empty: "isQueryEmpty m'"
  shows "matchedSuggestions E m' = ignoredItems m'
     \<and> sortedSuggestions E m' =
         sort_items E (ignoredItems m') (filterNoQueryPriorities E (sortPriorities (command m')))
           (lastOpenFileIndexByPath E)
     \<and> subseq (filterNoQueryPriorities E (sortPriorities (command m'))) (sortPriorities (command m'))
     \<and> mset (sortedSuggestions E m') = mset (ignoredItems m')
     \<and> (\<not> backlinkWithoutOrigin m' \<longrightarrow>
          fst (private_getSuggestions E q m) =
            with_order (slice_from_start (sortedSuggestions E m') (maxNumberOfSuggestions (settings m))))
     \<and> fst (private_getSuggestions (E\<lparr>stampMatchResults := st, smartWhitespaceSplit := sp\<rparr>) q m)
         = fst (private_getSuggestions E q m)"
proof -
  let ?E' = "E\<lparr>stampMatchResults := st, smartWhitespaceSplit := sp\<rparr>"
  have a: "matchedSuggestions E m' = ignoredItems m'"
    using empty by (simp add: matched_empty_query)
  have b: "sortedSuggestions E m' =
         sort_items E (ignoredItems m') (filterNoQueryPriorities E (sortPriorities (command m')))
           (lastOpenFileIndexByPath E)"
    using empty by (simp add: sortedSuggestions_def a)
  have c: "subseq (filterNoQueryPriorities E (sortPriorities (command m'))) (sortPriorities (command m'))"
    by (simp add: filterNoQueryPriorities_def)
  have d: "mset (sortedSuggestions E m') = mset (ignoredItems m')"
    by (simp add: mset_sortedSuggestions a)
  have p: "prepareSearch ?E' q m = m'"
    unfolding m' by (rule prepareSearch_cong) simp
  have "sortedSuggestions ?E' m' = sortedSuggestions E m'"
    using empty
    by (simp add: sortedSuggestions_def matched_empty_query filterNoQueryPriorities_def
        lastOpenFileIndexByPath_def sort_items_cong [of ?E' E])
  then have e: "fst (private_getSuggestions ?E' q m) = fst (private_getSuggestions E q m)"
    by (simp add: getSuggestions_result p m' [symmetric])
  from a b c d e show ?thesis by (simp add: getSuggestions_result m')
qed

theorem empty_query_skips_matching_witness:
  "isQueryEmpty (prepareSearch sample_collaborators (str ''  '') (sample_modal TargetFile 50))
   \<and> matchedSuggestions sample_collaborators
        (prepareSearch sample_collaborators (str ''  '') (sample_modal TargetFile 50))
       = ignoredItems (prepareSearch sample_collaborators (str ''  '') (sample_modal TargetFile 50))
   \<and> filterNoQueryPriorities sample_collaborators
        (sortPriorities (command
           (prepareSearch sample_collaborators (str ''  '') (sample_modal TargetFile 50))))
       = [str ''Star'']"
proof -
  let ?m = "prepareSearch sample_collaborators (str ''  '') (sample_modal TargetFile 50)"
  have blank: "isQueryEmpty ?m"
    by (simp add: sample_prepare sample_blank)
  note t = empty_query_skips_matching [OF refl blank]
  have c: "sortPriorities (command ?m) = [str ''Name match'', str ''Star'']"
    unfolding sample_prepare by (simp add: sample_modal_def sample_command_def)
  have f: "filterNoQueryPriorities sample_collaborators (sortPriorities (command ?m)) = [str ''Star'']"
    unfolding c by (simp add: filterNoQueryPriorities_def sample_collaborators_def str_def)
  from blank t [THEN conjunct1] f show ?thesis by (simp only: simp_thms)
qed

section \<open>Truncation and order\<close>

text \<open>
  Claim C3. For a result cap that is not negative, the suggestions are at most
  \<open>maxNumberOfSuggestions\<close> items, and the \<open>order\<close> of every returned item is its index in
  the returned list, counted from 0. The order is given after the truncation and to the
  returned items only: the returned list has the length of the sorted list cut at the
  cap, its item at an index is the sorted item at that index with nothing but \<open>order\<close>
  changed, and the candidates that the modal keeps are not changed.
\<close>

theorem truncated_with_order:
  assumes "0 \<le> maxNumberOfSuggestions (settings m)"
  shows "int (length (fst (private_getSuggestions E q m))) \<le> maxNumberOfSuggestions (settings m)
    \<and> (\<forall>i < length (fst (private_getSuggestions E q m)).
          order (fst (private_getSuggestions E q m) ! i) = Some (int i))
    \<and> (\<not> backlinkWithoutOrigin (prepareSearch E q m) \<longrightarrow>
         length (fst (private_getSuggestions E q m))
           = min (length (sortedSuggestions E (prepareSearch E q m)))
               (nat (maxNumberOfSuggestions (settings m)))
         \<and> (\<forall>i < length (fst (private_getSuggestions E q m)).
              fst (private_getSuggestions E q m) ! i
                = (sortedSuggestions E (prepareSearch E q m) ! i)\<lparr>order := Some (int i)\<rparr>))
    \<and> ignoredItems (snd (private_getSuggestions E q m)) = ignoredItems (prepareSearch E q m)"
  using assms
  by (auto simp: getSuggestions_result getSuggestions_state length_with_order
      length_slice_from_start nth_with_order nth_slice_from_start)

theorem truncated_with_order_witness:
  "0 \<le> maxNumberOfSuggestions (settings (sample_modal TargetFile 1))
   \<and> int (length (fst (private_getSuggestions sample_collaborators (str ''Proj'')
                         (sample_modal TargetFile 1))))
       \<le> maxNumberOfSuggestions (settings (sample_modal TargetFile 1))
   \<and> length (fst (private_getSuggestions sample_collaborators (str ''Proj'')
                    (sample_modal TargetFile 1))) = 1
   \<and> order (hd (fst (private_getSuggestions sample_collaborators (str ''Proj'')
                       (sample_modal TargetFile 1)))) = Some 0"
proof -
  have h: "0 \<le> maxNumberOfSuggestions (settings (sample_modal TargetFile 1))"
    by (simp add: sample_limit)
  note t = truncated_with_order [OF h, of sample_collaborators "str ''Proj''"]
  have r: "length (fst (private_getSuggestions sample_collaborators (str ''Proj'')
        (sample_modal TargetFile 1))) = 1
      \<and> order (hd (fst (private_getSuggestions sample_collaborators (str ''Proj'')
        (sample_modal TargetFile 1)))) = Some 0"
    by (simp add: sample_result_1)
  from h t [THEN conjunct1] r show ?thesis by (simp only: simp_thms)
qed

section \<open>Repeated evaluation and stability\<close>



section \<open>The counts\<close>

text \<open>
  Claim C5, as stated, fails: a backlink search without an origin file returns a list,
  the empty one, and reports no count. In the sample modal no count element exists after
  the call.
\<close>

theorem no_count_for_backlink_without_origin_counterexample:
  "backlinkWithoutOrigin
     (prepareSearch sample_collaborators (str ''Proj'') (sample_modal TargetBacklink 50))
   \<and> fst (private_getSuggestions sample_collaborators (str ''Proj'')
            (sample_modal TargetBacklink 50)) = []
   \<and> countInputEl (snd (private_getSuggestions sample_collaborators (str ''Proj'')
                          (sample_modal TargetBacklink 50))) = None"
proof -
  have p: "prepareSearch sample_collaborators (str ''Proj'') (sample_modal TargetBacklink 50)
      = (sample_modal TargetBacklink 50)\<lparr>searchQuery := str ''Proj''\<rparr>"
    by (rule sample_prepare)
  have g: "backlinkWithoutOrigin ((sample_modal TargetBacklink 50)\<lparr>searchQuery := str ''Proj''\<rparr>)"
    by (simp add: sample_guard)
  have c: "countInputEl ((sample_modal TargetBacklink 50)\<lparr>searchQuery := str ''Proj''\<rparr>) = None"
    by (simp add: sample_modal_def)
  show ?thesis
    by (simp add: getSuggestions_result getSuggestions_state p g c)
qed

text \<open>
  Claim C5, amended. Unless the search is a backlink search without an origin file, the
  modal shows, next to the returned list, the count element with the total, the number
  of sorted (that is, of eligible) items before truncation, and the shown count, the
  minimum of the total and \<open>maxNumberOfSuggestions\<close>; for a cap that is not negative the
  shown count is the number of returned items. In a backlink search without an origin
  file the empty list is returned and no count is shown: the count element of an earlier
  call, if any, is removed from the page and no new one is made.
\<close>

theorem shown_and_total_counts:
  assumes m': "m' = prepareSearch E q m"
  shows "(\<not> backlinkWithoutOrigin m' \<longrightarrow>
       countInputEl (snd (private_getSuggestions E q m)) =
           Some \<lparr> shown = min (int (length (sortedSuggestions E m')))
                            (maxNumberOfSuggestions (settings m)),
                  total = int (length (sortedSuggestions E m')),
                  attached = True \<rparr>
       \<and> length (sortedSuggestions E m') = length (matchedSuggestions E m')
       \<and> (0 \<le> maxNumberOfSuggestions (settings m) \<longrightarrow>
            int (length (fst (private_getSuggestions E q m)))
              = min (int (length (sortedSuggestions E m'))) (maxNumberOfSuggestions (settings m))))
     \<and> (backlinkWithoutOrigin m' \<longrightarrow>
          fst (private_getSuggestions E q m) = []
          \<and> countInputEl (snd (private_getSuggestions E q m))
              = map_option (\<lambda>c. c\<lparr>attached := False\<rparr>) (countInputEl m))"
proof (intro conjI impI)
  assume guard: "\<not> backlinkWithoutOrigin m'"
  show "countInputEl (snd (private_getSuggestions E q m)) =
           Some \<lparr> shown = min (int (length (sortedSuggestions E m')))
                            (maxNumberOfSuggestions (settings m)),
                  total = int (length (sortedSuggestions E m')),
                  attached = True \<rparr>"
    using guard unfolding m' by (simp add: getSuggestions_state)
  show "length (sortedSuggestions E m') = length (matchedSuggestions E m')"
    by (rule length_sortedSuggestions)
  show "int (length (fst (private_getSuggestions E q m)))
      = min (int (length (sortedSuggestions E m'))) (maxNumberOfSuggestions (settings m))"
    if "0 \<le> maxNumberOfSuggestions (settings m)"
    using guard that unfolding m'
    by (simp add: getSuggestions_result length_with_order length_slice_from_start)
next
  assume guard: "backlinkWithoutOrigin m'"
  show "fst (private_getSuggestions E q m) = []"
    using guard unfolding m' by (simp add: getSuggestions_result)
  show "countInputEl (snd (private_getSuggestions E q m))
      = map_option (\<lambda>c. c\<lparr>attached := False\<rparr>) (countInputEl m)"
    using guard unfolding m' by (simp add: getSuggestions_state prepareSearch_parts)
qed

theorem shown_and_total_counts_witness:
  "\<not> backlinkWithoutOrigin
       (prepareSearch sample_collaborators (str ''Proj'') (sample_modal TargetFile 1))
   \<and> countInputEl (snd (private_getSuggestions sample_collaborators (str ''Proj'')
                          (sample_modal TargetFile 1)))
       = Some \<lparr> shown = 1, total = 2, attached = True \<rparr>
   \<and> 0 \<le> maxNumberOfSuggestions (settings (sample_modal TargetFile 1))
   \<and> int (length (fst (private_getSuggestions sample_collaborators (str ''Proj'')
                          (sample_modal TargetFile 1)))) = 1
   \<and> backlinkWithoutOrigin
       (prepareSearch sample_collaborators (str ''Proj'') (sample_modal TargetBacklink 50))
   \<and> fst (private_getSuggestions sample_collaborators (str ''Proj'')
            (sample_modal TargetBacklink 50)) = []
   \<and> countInputEl (snd (private_getSuggestions sample_collaborators (str ''Proj'')
                          (sample_modal TargetBacklink 50))) = None"
proof -
  let ?m = "prepareSearch sample_collaborators (str ''Proj'') (sample_modal TargetFile 1)"
  let ?b = "prepareSearch sample_collaborators (str ''Proj'') (sample_modal TargetBacklink 50)"
  have guard: "\<not> backlinkWithoutOrigin ?m"
    by (simp add: sample_prepare sample_guard)
  have bguard: "backlinkWithoutOrigin ?b"
    by (simp add: sample_prepare sample_guard)
  have cap: "0 \<le> maxNumberOfSuggestions (settings (sample_modal TargetFile 1))"
    by (simp add: sample_limit)
  note t = shown_and_total_counts [OF refl, of sample_collaborators "str ''Proj''"
      "sample_modal TargetFile 1"]
  note u = shown_and_total_counts [OF refl, of sample_collaborators "str ''Proj''"
      "sample_modal TargetBacklink 50"]
  have len: "length (sortedSuggestions sample_collaborators ?m) = 2"
    by (simp add: sample_prepare sample_sorted sample_matched)
  have counts: "countInputEl (snd (private_getSuggestions sample_collaborators (str ''Proj'')
                          (sample_modal TargetFile 1)))
       = Some \<lparr> shown = 1, total = 2, attached = True \<rparr>"
    using t [THEN conjunct1, rule_format, OF guard, THEN conjunct1]
    by (simp add: len sample_limit)
  have len_result: "int (length (fst (private_getSuggestions sample_collaborators (str ''Proj'')
                          (sample_modal TargetFile 1)))) = 1"
    using t [THEN conjunct1, rule_format, OF guard, THEN conjunct2, THEN conjunct2,
        rule_format, OF cap]
    by (simp add: len sample_limit)
  have no_count: "countInputEl (sample_modal TargetBacklink 50) = None"
    by (simp add: sample_modal_def)
  have no_items: "fst (private_getSuggestions sample_collaborators (str ''Proj'')
            (sample_modal TargetBacklink 50)) = []"
    by (rule u [THEN conjunct2, rule_format, OF bguard, THEN conjunct1])
  have removed: "countInputEl (snd (private_getSuggestions sample_collaborators (str ''Proj'')
                          (sample_modal TargetBacklink 50))) = None"
    using u [THEN conjunct2, rule_format, OF bguard, THEN conjunct2] by (simp add: no_count)
  from guard counts cap len_result bguard no_items removed show ?thesis by (simp only: simp_thms)
qed

section \<open>Degenerate input\<close>

text \<open>
  The exceptions of \<open>_getSuggestions\<close>. With collaborators and helpers that return, the
  only exception is the \<open>TypeError\<close> of the two-hop search in \<open>prefilterItems\<close>: it needs
  an origin file, a command with that target to change to, and an item that the origin
  file links to and for which the backlinks have no entry. Without it the computation
  returns what \<open>private_getSuggestions\<close> returns: the empty list for a backlink search
  without an origin file and for an empty list of candidates, and never more items than
  there are candidates.
\<close>

lemma map_raising_Inl: "map_raising f xs = Inl e \<Longrightarrow> \<exists>x \<in> set xs. f x = Inl e"
  by (induction xs) (auto split: sum.splits)

lemma map_raising_raises:
  assumes "x \<in> set xs" and "f x = Inl e" and "\<And>y e'. f y = Inl e' \<Longrightarrow> e' = e"
  shows "map_raising f xs = Inl e"
proof (cases "map_raising f xs")
  case (Inl e')
  then obtain y where "f y = Inl e'" by (auto dest: map_raising_Inl)
  with assms(3) Inl show ?thesis by simp
next
  case (Inr ys)
  have "\<And>ys. map_raising f xs = Inr ys \<Longrightarrow> \<forall>x \<in> set xs. \<exists>y. f x = Inr y"
    by (induction xs) (auto split: sum.splits)
  with Inr assms(1,2) show ?thesis by fastforce
qed

lemma map_filter_mem: "x \<in> set xs \<Longrightarrow> f x = Some y \<Longrightarrow> y \<in> set (List.map_filter f xs)"
  by (induction xs) (auto simp: map_filter_simps split: option.splits)

lemma sortByKey_Inl: "sortByKey I key xs = Inl e \<Longrightarrow> \<exists>x \<in> set xs. key x = Inl e"
  by (auto simp: sortByKey_def split: sum.splits dest!: map_raising_Inl)

lemma filterByTarget_Inl:
  assumes "filterByTarget H I V c origin xs = Inl e"
  shows "e = TypeError \<and> searchTarget c = TargetTwoHopLink
     \<and> (\<exists>f x. origin = Some f \<and> x \<in> set xs
            \<and> createLinksMap H I V f (path (item_file x)) \<noteq> None
            \<and> createBacklinksMap H I V (path (item_file x)) = None)"
proof (cases "searchTarget c")
  case TargetFile
  with assms show ?thesis by (simp add: filterByTarget_def)
next
  case TargetBacklink
  with assms show ?thesis by (simp add: filterByTarget_def Let_def)
next
  case TargetLink
  with assms obtain x lm where "x \<in> set (filter (\<lambda>x. lm (path (item_file x)) \<noteq> None) xs)"
    and "(case lm (path (item_file x)) of Some l \<Rightarrow> Inr (startOffset l) | None \<Rightarrow> Inl TypeError) = Inl e"
    by (auto simp: filterByTarget_def Let_def dest!: sortByKey_Inl)
  then show ?thesis by (auto split: option.splits)
next
  case TargetTwoHopLink
  let ?lm = "case origin of Some f \<Rightarrow> createLinksMap H I V f | None \<Rightarrow> Map.empty"
  let ?paths = "map (\<lambda>x. path (item_file x)) (filter (\<lambda>x. ?lm (path (item_file x)) \<noteq> None) xs)"
  let ?read = "\<lambda>x. case createBacklinksMap H I V x of Some s \<Rightarrow> Inr s | None \<Rightarrow> Inl TypeError"
  have "map_raising ?read ?paths = Inl e"
  proof (cases "map_raising ?read ?paths")
    case (Inl e')
    with assms TargetTwoHopLink show ?thesis by (simp add: filterByTarget_def Let_def)
  next
    case (Inr sets)
    with assms TargetTwoHopLink obtain x where "(Inr (case ?lm (path (item_file x)) of
          Some l \<Rightarrow> startOffset l | None \<Rightarrow> 65535) :: js_error + int) = Inl e"
      by (auto simp: filterByTarget_def Let_def dest!: sortByKey_Inl)
    then show ?thesis by simp
  qed
  then obtain p where p: "p \<in> set ?paths" and r: "?read p = Inl e"
    by (auto dest!: map_raising_Inl)
  from r have e: "e = TypeError" and b: "createBacklinksMap H I V p = None"
    by (auto split: option.splits)
  from p obtain x where x: "x \<in> set xs" "?lm (path (item_file x)) \<noteq> None" "p = path (item_file x)"
    by auto
  from x(2) obtain f where f: "origin = Some f" by (cases origin) auto
  with x b e TargetTwoHopLink show ?thesis by auto
qed

lemma filterByTarget_two_hop_raises:
  assumes "searchTarget c = TargetTwoHopLink" and "x \<in> set xs"
    and "createLinksMap H I V f (path (item_file x)) \<noteq> None"
    and "createBacklinksMap H I V (path (item_file x)) = None"
  shows "filterByTarget H I V c (Some f) xs = Inl TypeError"
proof -
  let ?paths = "map (\<lambda>x. path (item_file x))
      (filter (\<lambda>x. createLinksMap H I V f (path (item_file x)) \<noteq> None) xs)"
  let ?read = "\<lambda>x. case createBacklinksMap H I V x of Some s \<Rightarrow> Inr s | None \<Rightarrow> Inl TypeError"
  have "path (item_file x) \<in> set ?paths" using assms(2,3) by auto
  moreover have "?read (path (item_file x)) = Inl TypeError" using assms(4) by simp
  moreover have "\<And>y e'. ?read y = Inl e' \<Longrightarrow> e' = TypeError" by (auto split: option.splits)
  ultimately have "map_raising ?read ?paths = Inl TypeError" by (rule map_raising_raises)
  with assms(1) show ?thesis by (simp add: filterByTarget_def Let_def)
qed

lemma prefilterItems_Inl:
  assumes "prefilterItems H I V c origin xs = Inl e"
  shows "e = TypeError \<and> searchTarget c = TargetTwoHopLink
     \<and> (\<exists>f x. origin = Some f \<and> x \<in> set xs
            \<and> createLinksMap H I V f (path (item_file x)) \<noteq> None
            \<and> createBacklinksMap H I V (path (item_file x)) = None)"
proof -
  let ?xs0 = "if targetExtensions c \<noteq> []
      then filter (\<lambda>x. extension (item_file x) \<in> set (targetExtensions c)) xs else xs"
  from assms have "filterByTarget H I V c origin ?xs0 = Inl e"
    by (auto simp: prefilterItems_def Let_def split: sum.splits)
  from filterByTarget_Inl [OF this] show ?thesis by (auto split: if_splits)
qed

lemma prefilterItems_two_hop_raises:
  assumes "searchTarget c = TargetTwoHopLink" and "x \<in> set xs"
    and "targetExtensions c = [] \<or> extension (item_file x) \<in> set (targetExtensions c)"
    and "createLinksMap H I V f (path (item_file x)) \<noteq> None"
    and "createBacklinksMap H I V (path (item_file x)) = None"
  shows "prefilterItems H I V c (Some f) xs = Inl TypeError"
proof -
  let ?xs0 = "if targetExtensions c \<noteq> []
      then filter (\<lambda>x. extension (item_file x) \<in> set (targetExtensions c)) xs else xs"
  have "x \<in> set ?xs0" using assms(2,3) by auto
  from filterByTarget_two_hop_raises [OF assms(1) this assms(4,5)]
  show ?thesis by (simp add: prefilterItems_def Let_def)
qed

lemma indexingItems_Inl:
  assumes "indexingItems H I V phantoms c origin = Inl e"
  shows "e = TypeError \<and> searchTarget c = TargetTwoHopLink \<and> origin \<noteq> None"
  using prefilterItems_Inl [of H I V c origin _ e] assms
  by (auto simp: indexingItems_def Let_def)

lemma indexingItems_two_hop_raises:
  assumes "searchTarget c = TargetTwoHopLink"
    and "x \<in> set (getFiles V)" and "path x \<noteq> path f" and "getFileCache V x \<noteq> None"
    and "targetExtensions c = [] \<or> extension x \<in> set (targetExtensions c)"
    and "createLinksMap H I V f (path x) \<noteq> None"
    and "createBacklinksMap H I V (path x) = None"
  shows "indexingItems H I V phantoms c (Some f) = Inl TypeError"
proof -
  from assms(4) obtain cache where cache: "getFileCache V x = Some cache" by auto
  let ?starred = "keyBy I (getStarredFilePaths V)"
  let ?item = "fileItem H I c ?starred x cache"
  let ?fileItems = "List.map_filter
      (\<lambda>x. if (case Some f of Some f \<Rightarrow> path x \<noteq> path f | None \<Rightarrow> True)
            then map_option (fileItem H I c ?starred x) (getFileCache V x) else None)
      (getFiles V)"
  have fl: "item_file ?item = x" by (simp add: fileItem_def)
  have "(if (case Some f of Some f \<Rightarrow> path x \<noteq> path f | None \<Rightarrow> True)
         then map_option (fileItem H I c ?starred x) (getFileCache V x) else None) = Some ?item"
    using assms(3) cache by simp
  with assms(2) have "?item \<in> set ?fileItems" by (rule map_filter_mem)
  then have mem: "?item \<in> set (?fileItems @ phantoms)" by simp
  have "prefilterItems H I V c (Some f) (?fileItems @ phantoms) = Inl TypeError"
    by (rule prefilterItems_two_hop_raises [OF assms(1) mem]) (simp_all add: fl assms)
  then show ?thesis by (simp add: indexingItems_def Let_def)
qed

lemma switchCommand_raising_Inl:
  assumes "switchCommand_raising H I V phantoms m q = Inl e"
  shows "e = TypeError \<and> originFile m \<noteq> None
     \<and> (\<exists>c \<in> set (initialCommand m # searchCommands (settings m)).
           searchTarget c = TargetTwoHopLink)"
proof -
  let ?selected = "commandByPrefix m q"
  let ?c = "case ?selected of Some c \<Rightarrow> c | None \<Rightarrow> initialCommand m"
  from assms have "indexingItems H I V phantoms ?c (originFile m) = Inl e"
    by (auto simp: switchCommand_raising_def Let_def split: if_splits sum.splits)
  from indexingItems_Inl [OF this]
  have e: "e = TypeError" "searchTarget ?c = TargetTwoHopLink" "originFile m \<noteq> None" by auto
  have "?c \<in> set (initialCommand m # searchCommands (settings m))"
  proof (cases ?selected)
    case None
    then show ?thesis by simp
  next
    case (Some c)
    then have "c \<in> set (filter (\<lambda>x. truthy (commandPrefix x)) (searchCommands (settings m)))"
      unfolding commandByPrefix_def find_Some_iff using nth_mem by blast
    with Some show ?thesis by simp
  qed
  with e show ?thesis by blast
qed

lemma getSuggestions_raising_Inl:
  assumes "getSuggestions_raising E H I V phantoms q m = Inl e"
  shows "e = TypeError \<and> originFile m \<noteq> None
     \<and> (\<exists>c \<in> set (initialCommand m # searchCommands (settings m)).
           searchTarget c = TargetTwoHopLink)"
proof -
  from assms have "switchCommand_raising H I V phantoms m q = Inl e"
    by (auto simp: getSuggestions_raising_def prepareSearch_raising_def Let_def
        split: sum.splits if_splits)
  then show ?thesis by (rule switchCommand_raising_Inl)
qed

lemma getSuggestions_raising_refines:
  assumes "\<And>c f. indexingItems H I V phantoms c f = Inr (indexedItems E c f)"
  shows "getSuggestions_raising E H I V phantoms q m = Inr (private_getSuggestions E q m)"
proof -
  have "switchCommand_raising H I V phantoms m q = Inr (switchCommand E m q)"
    by (auto simp: switchCommand_raising_def switchCommand_def assms Let_def)
  then have "prepareSearch_raising H I V phantoms q m = Inr (prepareSearch E q m)"
    by (simp add: prepareSearch_raising_def prepareSearch_def Let_def)
  then show ?thesis
    by (simp add: getSuggestions_raising_def private_getSuggestions_def Let_def)
qed

lemma getSuggestions_raising_degenerate:
  assumes "prepareSearch_raising H I V phantoms q m0 = Inr m"
  shows "\<exists>r m'. getSuggestions_raising E H I V phantoms q m0 = Inr (r, m')
      \<and> (backlinkWithoutOrigin m \<longrightarrow> r = [] \<and> m' = m)
      \<and> (ignoredItems m = [] \<longrightarrow> r = [])
      \<and> length r \<le> length (ignoredItems m)"
proof (cases "backlinkWithoutOrigin m")
  case True
  with assms show ?thesis by (simp add: getSuggestions_raising_def)
next
  case False
  let ?l = "maxNumberOfSuggestions (settings m)"
  let ?r = "with_order (slice_from_start (sortedSuggestions E m) ?l)"
  have "length ?r \<le> length (sortedSuggestions E m)"
    using length_slice_le [of "sortedSuggestions E m" ?l] by (simp add: length_with_order)
  also have "\<dots> \<le> length (ignoredItems m)"
    by (simp add: length_sortedSuggestions length_matched_le)
  finally have len: "length ?r \<le> length (ignoredItems m)" .
  from False assms have "\<exists>m'. getSuggestions_raising E H I V phantoms q m0 = Inr (?r, m')"
    by (simp add: getSuggestions_raising_def Let_def)
  with len False show ?thesis by auto
qed


lemma filterByTarget_backlink_no_entry:
  assumes "searchTarget c = TargetBacklink"
    and "createBacklinksMap H I V (case origin of Some f \<Rightarrow> path f | None \<Rightarrow> []) = None"
  shows "filterByTarget H I V c origin xs = Inr []"
  using assms by (simp add: filterByTarget_def Let_def)

text \<open>The sample vault, evaluated.\<close>

lemma two_hop_path: "path (sample_file (str ''a/X'')) = str ''a/X.md''"
  by (simp add: sample_file_def str_def)

lemma two_hop_origin_cache:
  "getFileCache two_hop_vault (sample_file (str ''o/O''))
     = Some \<lparr> cache_frontmatter = None, cache_tags = None, cache_headings = None,
              cache_links = Some [\<lparr> linkText = str ''X'', displayText = None, startOffset = 0 \<rparr>],
              cache_embeds = None \<rparr>"
  by (simp add: two_hop_vault_def two_hop_cache_def sample_file_def str_def)

lemma two_hop_link_path: "linkText2Path two_hop_vault (str ''X'') = Some (str ''a/X.md'')"
  by (simp add: linkText2Path_def two_hop_vault_def two_hop_path)

lemma two_hop_links_map:
  "createLinksMap sample_helpers sample_index_helpers two_hop_vault (sample_file (str ''o/O''))
     (str ''a/X.md'')
   = Some \<lparr> linkText = str ''X'', displayText = None, startOffset = 0 \<rparr>"
  by (simp add: createLinksMap_def two_hop_origin_cache two_hop_link_path sample_index_helpers_def
      Let_def)

lemma two_hop_backlinks_map:
  "createBacklinksMap sample_helpers sample_index_helpers two_hop_vault
     = [str ''o/X.md'' \<mapsto> [str ''o/O.md'']]"
  by (simp add: createBacklinksMap_def two_hop_vault_def sample_index_helpers_def Let_def)

lemma two_hop_no_backlinks:
  "createBacklinksMap sample_helpers sample_index_helpers two_hop_vault (str ''a/X.md'') = None"
  by (simp add: two_hop_backlinks_map str_def)

lemma two_hop_indexing_raises:
  "indexingItems sample_helpers sample_index_helpers two_hop_vault phantoms two_hop_command
     (Some (sample_file (str ''o/O''))) = Inl TypeError"
proof (rule indexingItems_two_hop_raises [where x = "sample_file (str ''a/X'')"])
  show "searchTarget two_hop_command = TargetTwoHopLink"
    by (simp add: two_hop_command_def sample_command_def)
  show "sample_file (str ''a/X'') \<in> set (getFiles two_hop_vault)"
    by (simp add: two_hop_vault_def)
  show "path (sample_file (str ''a/X'')) \<noteq> path (sample_file (str ''o/O''))"
    by (simp add: sample_file_def str_def)
  show "getFileCache two_hop_vault (sample_file (str ''a/X'')) \<noteq> None"
    by (simp add: two_hop_vault_def two_hop_cache_def)
  show "targetExtensions two_hop_command = []
      \<or> extension (sample_file (str ''a/X'')) \<in> set (targetExtensions two_hop_command)"
    by (simp add: two_hop_command_def sample_command_def)
  show "createLinksMap sample_helpers sample_index_helpers two_hop_vault (sample_file (str ''o/O''))
      (path (sample_file (str ''a/X''))) \<noteq> None"
    by (simp add: two_hop_path two_hop_links_map)
  show "createBacklinksMap sample_helpers sample_index_helpers two_hop_vault
      (path (sample_file (str ''a/X''))) = None"
    by (simp add: two_hop_path two_hop_no_backlinks)
qed

lemma two_hop_initial_switch:
  "switchCommand_raising sample_helpers sample_index_helpers two_hop_vault phantoms two_hop_initial_modal []
     = Inl TypeError"
proof -
  have sel: "commandByPrefix two_hop_initial_modal [] = None"
    by (simp add: commandByPrefix_def two_hop_initial_modal_def sample_modal_def
        sample_command_def truthy_def)
  have refs: "command_ref (initialCommand two_hop_initial_modal)
      \<noteq> command_ref (command two_hop_initial_modal)"
    by (simp add: two_hop_initial_modal_def sample_modal_def sample_command_def
        two_hop_command_def)
  have init: "initialCommand two_hop_initial_modal = two_hop_command"
    and orig: "originFile two_hop_initial_modal = Some (sample_file (str ''o/O''))"
    by (simp_all add: two_hop_initial_modal_def)
  show ?thesis
    using refs by (simp add: switchCommand_raising_def sel init orig two_hop_indexing_raises)
qed

lemma two_hop_prefix_switch:
  "switchCommand_raising sample_helpers sample_index_helpers two_hop_vault phantoms two_hop_prefix_modal
     (str '':t '') = Inl TypeError"
proof -
  have sel: "commandByPrefix two_hop_prefix_modal (str '':t '') = Some two_hop_command"
    by (simp add: commandByPrefix_def two_hop_prefix_modal_def sample_modal_def
        sample_command_def two_hop_command_def truthy_def str_def)
  have refs: "command_ref two_hop_command \<noteq> command_ref (command two_hop_prefix_modal)"
    by (simp add: two_hop_prefix_modal_def sample_modal_def sample_command_def
        two_hop_command_def)
  have orig: "originFile two_hop_prefix_modal = Some (sample_file (str ''o/O''))"
    by (simp add: two_hop_prefix_modal_def)
  show ?thesis
    using refs by (simp add: switchCommand_raising_def sel orig two_hop_indexing_raises)
qed

lemma two_hop_search_text:
  "buildSearchQuery (two_hop_prefix_modal\<lparr>command := two_hop_command\<rparr>) (str '':t '') = []"
  by (simp add: buildSearchQuery_def two_hop_command_def sample_command_def truthy_def str_def)

lemma two_hop_backlink_returns:
  "indexingItems sample_helpers sample_index_helpers two_hop_vault phantoms
     (sample_command TargetBacklink) (Some (sample_file (str ''a/X''))) = Inr []"
proof -
  have "filterByTarget sample_helpers sample_index_helpers two_hop_vault
      (sample_command TargetBacklink) (Some (sample_file (str ''a/X''))) xs = Inr []" for xs
    by (rule filterByTarget_backlink_no_entry)
       (simp_all add: sample_command_def two_hop_path two_hop_no_backlinks)
  then show ?thesis
    by (simp add: indexingItems_def prefilterItems_def Let_def sample_command_def)
qed

text \<open>
  Claim C7. The suggestion computation is to raise nothing on degenerate input (an empty
  query, an empty list of items, items without facet data) and to treat what is missing as
  no match. The code does not keep this where the command changes. \<open>_getSuggestions\<close>
  indexes the items again then, and for a two-hop search \<open>prefilterItems\<close> evaluates
  \<open>Array.from(backlinksMap2[x])\<close> for the path \<open>x\<close> of every item that the origin file
  links to, without the guard \<open>?.\<close> with which the backlink search reads the same map and
  the sort key of the two-hop search reads the links. When the backlinks have no entry for
  such an item, a \<open>TypeError\<close> is raised and \<open>_getSuggestions\<close> ends with it. On the sample
  vault, whose items have no aliases, tags, headers or links: the empty query raises on
  the modal that goes back to its initial two-hop search; the query that is only the
  prefix of the two-hop command, whose search text is empty, raises on the modal opened
  with a link search; and a backlink search for the note without an entry returns the
  empty list.
\<close>

theorem two_hop_reindex_raises:
  "getSuggestions_raising sample_collaborators sample_helpers sample_index_helpers two_hop_vault
     (phantomItems sample_helpers (app_state two_hop_vault) False) [] two_hop_initial_modal
     = Inl TypeError
   \<and> getSuggestions_raising sample_collaborators sample_helpers sample_index_helpers two_hop_vault
       (phantomItems sample_helpers (app_state two_hop_vault) False) (str '':t '')
       two_hop_prefix_modal
     = Inl TypeError
   \<and> buildSearchQuery (two_hop_prefix_modal\<lparr>command := two_hop_command\<rparr>) (str '':t '') = []
   \<and> indexingItems sample_helpers sample_index_helpers two_hop_vault
       (phantomItems sample_helpers (app_state two_hop_vault) False)
       (sample_command TargetBacklink) (Some (sample_file (str ''a/X''))) = Inr []"
  by (simp add: getSuggestions_raising_def prepareSearch_raising_def two_hop_initial_switch
      two_hop_prefix_switch two_hop_backlink_returns two_hop_search_text)

section \<open>The description of a suggestion\<close>

text \<open>
  Claim C8. For every item and all options, \<open>createElements\<close> returns a result with a
  \<open>descriptionDiv\<close>: the early return with the \<open>itemDiv\<close> alone is never taken, since
  its guard compares \<open>countByHeader\<close>, an object that is in the store, with the object of
  a new literal by \<open>===\<close>, which is false.
\<close>

theorem createElements_has_descriptionDiv:
  "descriptionDiv (fst (createElements H I item options h)) \<noteq> None
   \<and> \<not> fst (strict_equals_new_object (fst (alloc obj h)) (snd (alloc obj h)))"
  by (simp add: createElements_def Let_def alloc_def strict_equals_new_object_def
      split: prod.splits)

theorem createElements_has_descriptionDiv_witness:
  "descriptionDiv (fst (createElements sample_helpers sample_icons
       (sample_item (str ''Project Plan'')) sample_options []))
     = Some (Element (str ''div'') [str ''another-quick-switcher__item__descriptions''] [] [])"
  using createElements_has_descriptionDiv [of sample_helpers sample_icons
      "sample_item (str ''Project Plan'')" sample_options "[]"]
  by (simp add: createElements_def Let_def alloc_def strict_equals_new_object_def
      sample_helpers_def sample_item_def createDescriptionDiv_def createDiv_def createEl_def
      split: prod.splits)

end
